theory Spec2Isabelle
  imports Complex_Main "HOL-Library.Multiset"
begin

section \<open>Tables\<close>

text \<open>
  The three programs (\<^verbatim>\<open>datasets/data_combiner.py\<close>, \<^verbatim>\<open>ml/trainer.py\<close>,
  \<^verbatim>\<open>server.py\<close>) work on pandas tables. A table is modelled by its column labels, in
  order and with repetitions (pandas allows a label to occur twice), and its rows, each
  row holding one cell per label. A cell is a missing value, a number, a text or, in a
  column converted by \<^verbatim>\<open>pd.to_datetime\<close>, a point in time. Numbers are reals: rounding
  of floating-point arithmetic is not modelled. \<^verbatim>\<open>NaT\<close> and \<^verbatim>\<open>NaN\<close> are both the
  missing cell, as for \<^verbatim>\<open>dropna\<close>.
\<close>

datatype cell = NaN | Num real | Txt string | Stamp int

record frame =
  columns :: "string list"
  rows :: "cell list list"

datatype exn =
    KeyError string
  | TypeError
  | IndexError
  | InvalidIndexError
  | OtherError string

text \<open>\<^verbatim>\<open>pd.DataFrame([d])\<close> for a dict \<open>d\<close>, given by its items in insertion order (a
  dict holds each key once): one row, one column per key.\<close>

definition DataFrame_of_dict :: "(string \<times> cell) list \<Rightarrow> frame" where
  "DataFrame_of_dict d = \<lparr>columns = map fst d, rows = [map snd d]\<rparr>"

text \<open>\<^verbatim>\<open>df.rename(columns={old: new}, inplace=True)\<close>: every label \<open>old\<close> becomes
  \<open>new\<close>; a label \<open>new\<close> that is already there stays, so the label can repeat.\<close>

definition rename_col :: "string \<Rightarrow> string \<Rightarrow> frame \<Rightarrow> frame" where
  "rename_col old new df =
     df\<lparr>columns := map (\<lambda>n. if n = old then new else n) (columns df)\<rparr>"

text \<open>\<^verbatim>\<open>df[c] = v\<close> for a scalar \<open>v\<close>: an existing column \<open>c\<close> is overwritten in every
  row, otherwise a new last column is added.\<close>

definition setitem :: "string \<Rightarrow> cell \<Rightarrow> frame \<Rightarrow> frame" where
  "setitem c v df =
     (if c \<in> set (columns df)
      then df\<lparr>rows := map (\<lambda>r. map (\<lambda>(n, x). if n = c then v else x) (zip (columns df) r))
                          (rows df)\<rparr>
      else df\<lparr>columns := columns df @ [c], rows := map (\<lambda>r. r @ [v]) (rows df)\<rparr>)"

text \<open>The cells of a row under the label \<open>c\<close> (one for each occurrence of the label).\<close>

definition pick :: "string list \<Rightarrow> cell list \<Rightarrow> string \<Rightarrow> cell list" where
  "pick hdr r c = map snd (filter (\<lambda>(n, x). n = c) (zip hdr r))"

text \<open>\<^verbatim>\<open>df[cs]\<close> for a list of labels: \<^verbatim>\<open>KeyError\<close> when a label is missing; otherwise,
  label by label in the order of \<open>cs\<close>, every column that carries the label.\<close>

definition getitem :: "string list \<Rightarrow> frame \<Rightarrow> exn + frame" where
  "getitem cs df =
     (case filter (\<lambda>c. c \<notin> set (columns df)) cs of
        m # _ \<Rightarrow> Inl (KeyError m)
      | [] \<Rightarrow> Inr \<lparr>columns = concat (map (\<lambda>c. filter (\<lambda>n. n = c) (columns df)) cs),
                  rows = map (\<lambda>r. concat (map (pick (columns df) r) cs)) (rows df)\<rparr>)"

text \<open>The loop both programs use to repair a schema:
  \<^verbatim>\<open>for col in cols: if col not in df.columns: df[col] = 0.0\<close>.\<close>

fun add_missing :: "string list \<Rightarrow> frame \<Rightarrow> frame" where
  "add_missing [] df = df"
| "add_missing (col # cs) df =
     add_missing cs (if col \<notin> set (columns df) then setitem col (Num 0) df else df)"

text \<open>\<^verbatim>\<open>str.lower\<close>, on ASCII letters; other characters are left as they are.\<close>

definition lower_char :: "char \<Rightarrow> char" where
  "lower_char c =
     (let n = (of_char c :: nat) in if 65 \<le> n \<and> n \<le> 90 then char_of (n + 32) else c)"

definition lower :: "string \<Rightarrow> string" where
  "lower s = map lower_char s"

section \<open>The prediction service\<close>

text \<open>
  The model artifact is opaque: \<^verbatim>\<open>model.predict\<close> takes a table and either raises or
  returns an array of numbers. The service keeps the two globals \<^verbatim>\<open>model\<close> and
  \<^verbatim>\<open>historical_data\<close>, each \<^verbatim>\<open>None\<close> until loaded.
\<close>

type_synonym regressor = "frame \<Rightarrow> exn + real list"

record server =
  model :: "regressor option"
  historical_data :: "frame option"

datatype payload =
    Prediction real
  | Error string
  | ErrorWith string exn
  | Records "(string option \<times> cell) list"

type_synonym response = "nat \<times> payload"

definition required_cols :: "string list" where
  "required_cols = [''Lat'', ''Long'', ''Rainfall_mm'', ''Temperature_C'', ''pH'',
                    ''Dissolved_Oxygen_mg_L'']"

text \<open>\<^verbatim>\<open>prediction[0]\<close> of the array \<^verbatim>\<open>model.predict(features_df)\<close>.\<close>

definition first_prediction :: "regressor \<Rightarrow> frame \<Rightarrow> exn + real" where
  "first_prediction m df =
     (case m df of Inl e \<Rightarrow> Inl e | Inr [] \<Rightarrow> Inl IndexError | Inr (y # _) \<Rightarrow> Inr y)"

text \<open>The body of the \<^verbatim>\<open>try\<close> block of \<^verbatim>\<open>predict\<close> (server.py, lines 55 to 66).\<close>

definition predict_try :: "regressor \<Rightarrow> (string \<times> cell) list \<Rightarrow> exn + real" where
  "predict_try m features =
     (case getitem required_cols (add_missing required_cols (DataFrame_of_dict features)) of
        Inl e \<Rightarrow> Inl e
      | Inr features_df \<Rightarrow> first_prediction m features_df)"

text \<open>\<^verbatim>\<open>POST /predict\<close>. The decoded body is a JSON object; the argument is its member
  \<^verbatim>\<open>features\<close>, an object of scalars, or \<open>None\<close> when the body is empty or has no such
  member.\<close>

definition predict :: "server \<Rightarrow> (string \<times> cell) list option \<Rightarrow> response" where
  "predict st data =
     (case model st of
        None \<Rightarrow> (500, Error ''Model not loaded.'')
      | Some m \<Rightarrow>
         (case data of
            None \<Rightarrow> (400, Error ''Invalid input data. features key is missing.'')
          | Some features \<Rightarrow>
             (case predict_try m features of
                Inr y \<Rightarrow> (200, Prediction y)
              | Inl (KeyError k) \<Rightarrow> (400, ErrorWith ''Missing feature: '' (KeyError k))
              | Inl e \<Rightarrow> (500, ErrorWith ''An error occurred: '' e))))"


text \<open>\<^verbatim>\<open>POST /predict_by_city\<close> and \<^verbatim>\<open>GET /historical_data\<close> read single columns. The
  tables they read come from \<^verbatim>\<open>pd.read_csv\<close>, which makes the labels of a file unique, so a
  label names at most one column; \<open>cell_of\<close> reads the cell under a label (the missing cell
  when there is none).\<close>

definition cell_of :: "string list \<Rightarrow> cell list \<Rightarrow> string \<Rightarrow> cell" where
  "cell_of hdr r c = (case map_of (zip hdr r) c of None \<Rightarrow> NaN | Some v \<Rightarrow> v)"

definition column_of :: "string \<Rightarrow> frame \<Rightarrow> cell list" where
  "column_of c df = map (\<lambda>r. cell_of (columns df) r c) (rows df)"

text \<open>The boolean mask \<^verbatim>\<open>df['City'].str.lower() == city.lower()\<close> applied to the table:
  \<^verbatim>\<open>KeyError\<close> without a column \<^verbatim>\<open>City\<close>; a cell that is not a text never matches. The
  column is taken to hold text, as the Combiner writes it.\<close>

definition city_matches :: "string \<Rightarrow> string list \<Rightarrow> cell list \<Rightarrow> bool" where
  "city_matches city hdr r =
     (case cell_of hdr r ''City'' of Txt s \<Rightarrow> lower s = lower city | _ \<Rightarrow> False)"

definition city_rows :: "frame \<Rightarrow> string \<Rightarrow> exn + frame" where
  "city_rows df city =
     (if ''City'' \<notin> set (columns df) then Inl (KeyError ''City'')
      else Inr (df\<lparr>rows := filter (city_matches city (columns df)) (rows df)\<rparr>))"

text \<open>\<^verbatim>\<open>Series.mean()\<close>: missing cells are skipped, a column with no number has the
  missing cell as its mean, and a column holding anything but numbers raises
  \<^verbatim>\<open>TypeError\<close>.\<close>

fun numbers :: "cell list \<Rightarrow> real list option" where
  "numbers [] = Some []"
| "numbers (NaN # xs) = numbers xs"
| "numbers (Num v # xs) = (case numbers xs of None \<Rightarrow> None | Some vs \<Rightarrow> Some (v # vs))"
| "numbers (_ # xs) = None"

definition mean :: "cell list \<Rightarrow> exn + cell" where
  "mean xs =
     (case numbers xs of
        None \<Rightarrow> Inl TypeError
      | Some [] \<Rightarrow> Inr NaN
      | Some vs \<Rightarrow> Inr (Num (sum_list vs / real (length vs))))"

fun means :: "cell list list \<Rightarrow> exn + cell list" where
  "means [] = Inr []"
| "means (col # rest) =
     (case mean col of
        Inl e \<Rightarrow> Inl e
      | Inr v \<Rightarrow> (case means rest of Inl e \<Rightarrow> Inl e | Inr vs \<Rightarrow> Inr (v # vs)))"

text \<open>The body of the \<^verbatim>\<open>try\<close> block of \<^verbatim>\<open>predict_by_city\<close> (server.py, lines 90 to
  97): the per-column means of the six features, as a one-row table, go to the model.\<close>

definition predict_by_city_try :: "regressor \<Rightarrow> frame \<Rightarrow> exn + real" where
  "predict_by_city_try m city_data =
     (case getitem required_cols city_data of
        Inl e \<Rightarrow> Inl e
      | Inr sub \<Rightarrow>
         (case means (map (\<lambda>c. column_of c sub) (columns sub)) of
            Inl e \<Rightarrow> Inl e
          | Inr avg_features \<Rightarrow>
              first_prediction m \<lparr>columns = columns sub, rows = [avg_features]\<rparr>))"

text \<open>A handler's result is the response it returns, or the exception it lets escape
  (which the web framework answers with its own status 500 page). The argument \<open>city\<close> is
  the request's \<^verbatim>\<open>city\<close> value, \<open>None\<close> when absent.\<close>

definition predict_by_city :: "server \<Rightarrow> string option \<Rightarrow> exn + response" where
  "predict_by_city st city =
     (case model st of
        None \<Rightarrow> Inr (500, Error ''Model not loaded.'')
      | Some m \<Rightarrow>
         (case historical_data st of
            None \<Rightarrow> Inr (500, Error ''Historical data not loaded on the server.'')
          | Some h \<Rightarrow>
             (case city of
                None \<Rightarrow> Inr (400, Error ''City parameter is required.'')
              | Some c \<Rightarrow>
                 if c = [] then Inr (400, Error ''City parameter is required.'')
                 else (case city_rows h c of
                         Inl e \<Rightarrow> Inl e
                       | Inr city_data \<Rightarrow>
                           if rows city_data = []
                           then Inr (404, Error ''No data found for the specified city.'')
                           else (case predict_by_city_try m city_data of
                                   Inr y \<Rightarrow> Inr (200, Prediction y)
                                 | Inl e \<Rightarrow>
                                     Inr (500, ErrorWith
                                       ''An error occurred during prediction: '' e))))))"

text \<open>One entry of \<^verbatim>\<open>to_dict('records')\<close> after the loop of lines 116 to 124: a point in
  time is formatted by \<^verbatim>\<open>strftime\<close> (the parameter \<open>fmt\<close>, \<open>None\<close> when it raises
  \<^verbatim>\<open>ValueError\<close>), anything else becomes null. A dict keeps the last of two equal keys.\<close>

definition to_record ::
  "(int \<Rightarrow> string option) \<Rightarrow> string list \<Rightarrow> cell list \<Rightarrow> string option \<times> cell" where
  "to_record fmt hdr r =
     ((case cell_of (rev hdr) (rev r) ''Date'' of Stamp t \<Rightarrow> fmt t | _ \<Rightarrow> None),
      cell_of (rev hdr) (rev r) ''Water_Level_m'')"

definition get_historical_data ::
  "(int \<Rightarrow> string option) \<Rightarrow> server \<Rightarrow> string option \<Rightarrow> exn + response" where
  "get_historical_data fmt st city =
     (case historical_data st of
        None \<Rightarrow> Inr (500, Error ''Historical data not loaded on the server.'')
      | Some h \<Rightarrow>
         (case city of
            None \<Rightarrow> Inr (400, Error ''City parameter is required.'')
          | Some c \<Rightarrow>
             if c = [] then Inr (400, Error ''City parameter is required.'')
             else (case city_rows h c of
                     Inl e \<Rightarrow> Inl e
                   | Inr city_data \<Rightarrow>
                       if rows city_data = []
                       then Inr (404, Error ''No data found for the specified city.'')
                       else (case getitem [''Date'', ''Water_Level_m''] city_data of
                               Inl e \<Rightarrow> Inl e
                             | Inr sub \<Rightarrow>
                                 Inr (200, Records (map (to_record fmt (columns sub))
                                                        (rows sub)))))))"

subsection \<open>Startup\<close>

text \<open>
  What the two paths hold when the service starts: nothing, a file the loader raises on,
  or a file it loads. \<^verbatim>\<open>pd.to_datetime(col, errors='coerce')\<close> is the parameter \<open>td\<close>:
  \<open>td col i\<close> is the point in time parsed from entry \<open>i\<close> of the column \<open>col\<close>, \<open>None\<close>
  for \<^verbatim>\<open>NaT\<close>.
\<close>

datatype 'a stored = Absent | Corrupt | Holds 'a

record disk =
  model_file :: "regressor stored"
  dataset_file :: "frame stored"

definition to_datetime_column ::
  "(cell list \<Rightarrow> nat \<Rightarrow> int option) \<Rightarrow> frame \<Rightarrow> frame" where
  "to_datetime_column td df =
     (let col = column_of ''Date'' df
      in df\<lparr>rows :=
           map (\<lambda>(i, r). map (\<lambda>(n, x). if n = ''Date''
                                        then (case td col i of None \<Rightarrow> NaN | Some t \<Rightarrow> Stamp t)
                                        else x)
                             (zip (columns df) r))
               (enumerate 0 (rows df))\<rparr>)"

definition dropna_subset :: "string \<Rightarrow> frame \<Rightarrow> frame" where
  "dropna_subset c df = df\<lparr>rows := filter (\<lambda>r. cell_of (columns df) r c \<noteq> NaN) (rows df)\<rparr>"

text \<open>Lines 36 to 38. Without a column \<^verbatim>\<open>Date\<close> line 37 raises \<^verbatim>\<open>KeyError\<close>, which the
  handler of line 40 catches after \<^verbatim>\<open>historical_data\<close> has been assigned: the table
  stays as it was read.\<close>

definition load_dataset :: "(cell list \<Rightarrow> nat \<Rightarrow> int option) \<Rightarrow> frame \<Rightarrow> frame" where
  "load_dataset td df =
     (if ''Date'' \<in> set (columns df)
      then dropna_subset ''Date'' (to_datetime_column td df)
      else df)"

definition startup :: "(cell list \<Rightarrow> nat \<Rightarrow> int option) \<Rightarrow> disk \<Rightarrow> server" where
  "startup td d =
     \<lparr>model = (case model_file d of Holds m \<Rightarrow> Some m | _ \<Rightarrow> None),
      historical_data =
        (case dataset_file d of Holds df \<Rightarrow> Some (load_dataset td df) | _ \<Rightarrow> None)\<rparr>"

section \<open>The dataset combiner\<close>

definition cols :: "string list" where
  "cols = [''Date'', ''City'', ''Water_Level_m'', ''Lat'', ''Long'', ''Rainfall_mm'',
           ''Temperature_C'', ''pH'', ''Dissolved_Oxygen_mg_L'']"

text \<open>\<^verbatim>\<open>os.path.basename(f).split('_')[0]\<close>.\<close>

definition city_name :: "string \<Rightarrow> string" where
  "city_name f = takeWhile (\<lambda>c. c \<noteq> CHR ''_'') f"

text \<open>Lines 42 to 45: the two renamings.\<close>

definition standardize :: "frame \<Rightarrow> frame" where
  "standardize df =
     (let df1 = (if ''WL'' \<in> set (columns df) then rename_col ''WL'' ''WaterLevel'' df else df)
      in if ''WaterLevel'' \<in> set (columns df1)
         then rename_col ''WaterLevel'' ''Water_Level_m'' df1 else df1)"

text \<open>Lines 38 to 55: what the loop body does to the table read from the file named
  \<open>f\<close>.\<close>

definition normalize_table :: "string \<Rightarrow> frame \<Rightarrow> exn + frame" where
  "normalize_table f df =
     getitem cols (add_missing cols (standardize (setitem ''City'' (Txt (city_name f)) df)))"

text \<open>
  The directory \<^verbatim>\<open>datasets/raw\<close> is a list of named entries, in the order the system
  lists them; an entry is a table in CSV form (what \<^verbatim>\<open>pd.read_csv\<close> returns for it, and
  what \<^verbatim>\<open>to_csv\<close> wrote) or something \<^verbatim>\<open>pd.read_csv\<close> raises on. The file system is
  \<open>None\<close> when the directory does not exist.
\<close>

datatype content = Table frame | Unreadable

type_synonym directory = "(string \<times> content) list"

fun has_infix :: "string \<Rightarrow> string \<Rightarrow> bool" where
  "has_infix p [] = (p = [])"
| "has_infix p (c # cs) = (take (length p) (c # cs) = p \<or> has_infix p cs)"

text \<open>\<^verbatim>\<open>glob\<close> with the pattern \<^verbatim>\<open>*_detailed_groundwater_data*.csv\<close>: the name ends in
  \<^verbatim>\<open>.csv\<close>, holds the middle part before that, and does not start with a dot.\<close>

definition is_source :: "string \<Rightarrow> bool" where
  "is_source name =
     (take 1 name \<noteq> ''.'' \<and> 4 \<le> length name \<and> drop (length name - 4) name = ''.csv'' \<and>
      has_infix ''_detailed_groundwater_data'' (take (length name - 4) name))"

definition output_name :: string where
  "output_name = ''combined_city_data.csv''"

text \<open>The loop of lines 34 to 58: a file that cannot be read, or whose normalisation
  raises, is reported and skipped.\<close>

fun process_files :: "directory \<Rightarrow> frame list" where
  "process_files [] = []"
| "process_files ((f, Unreadable) # rest) = process_files rest"
| "process_files ((f, Table df) # rest) =
     (case normalize_table f df of
        Inl e \<Rightarrow> process_files rest
      | Inr d \<Rightarrow> d # process_files rest)"

text \<open>\<^verbatim>\<open>pd.concat(objs, ignore_index=True)\<close>. Tables with the same labels are stacked.
  Otherwise the result has the union of the labels, in order of first occurrence, and each
  table is re-indexed to it, with missing cells where it has no such column; re-indexing
  a table that repeats a label raises \<^verbatim>\<open>InvalidIndexError\<close>.\<close>

definition reindex :: "string list \<Rightarrow> string list \<Rightarrow> cell list \<Rightarrow> cell list" where
  "reindex hdr new r = map (cell_of hdr r) new"

definition pd_concat :: "frame list \<Rightarrow> exn + frame" where
  "pd_concat objs =
     (case objs of
        [] \<Rightarrow> Inl (OtherError ''No objects to concatenate'')
      | f # rest \<Rightarrow>
          if list_all (\<lambda>g. columns g = columns f) rest
          then Inr \<lparr>columns = columns f, rows = concat (map rows objs)\<rparr>
          else if list_ex (\<lambda>g. \<not> distinct (columns g)) objs then Inl InvalidIndexError
          else let u = rev (remdups (rev (concat (map columns objs))))
               in Inr \<lparr>columns = u,
                       rows = concat (map (\<lambda>g. map (reindex (columns g) u) (rows g)) objs)\<rparr>)"

fun write_file :: "string \<Rightarrow> content \<Rightarrow> directory \<Rightarrow> directory" where
  "write_file n c [] = [(n, c)]"
| "write_file n c ((m, d) # rest) =
     (if m = n then (n, c) # rest else (m, d) # write_file n c rest)"

text \<open>\<^verbatim>\<open>combine_and_clean_data\<close>: the value returned (the output path or \<^verbatim>\<open>None\<close>) or
  the exception raised, and the file system afterwards.\<close>

definition combine_and_clean_data ::
  "directory option \<Rightarrow> (exn + string option) \<times> directory option" where
  "combine_and_clean_data fs =
     (case fs of
        None \<Rightarrow> (Inr None, fs)
      | Some raw \<Rightarrow>
          let all_files = filter (\<lambda>(f, c). is_source f) raw
          in if all_files = [] then (Inr None, fs)
             else let combined_data = process_files all_files
                  in if combined_data = [] then (Inr None, fs)
                     else (case pd_concat combined_data of
                             Inl e \<Rightarrow> (Inl e, fs)
                           | Inr final_df \<Rightarrow>
                               (Inr (Some output_name),
                                Some (write_file output_name (Table final_df) raw))))"

section \<open>Feature and target extraction\<close>

text \<open>Lines 19 to 26 of \<^verbatim>\<open>ml/trainer.py\<close> (the same as lines 92 to 99 of
  \<^verbatim>\<open>datasets/data_combiner.py\<close>): \<^verbatim>\<open>df.dropna(inplace=True)\<close> removes every row with a
  missing cell, in any column; then the six features and the target are selected.\<close>

definition dropna :: "frame \<Rightarrow> frame" where
  "dropna df = df\<lparr>rows := filter (\<lambda>r. NaN \<notin> set r) (rows df)\<rparr>"

definition getitem_series :: "string \<Rightarrow> frame \<Rightarrow> exn + cell list" where
  "getitem_series c df =
     (if c \<in> set (columns df) then Inr (column_of c df) else Inl (KeyError c))"

definition extract_xy :: "frame \<Rightarrow> exn + frame \<times> cell list" where
  "extract_xy df0 =
     (let df = dropna df0
      in case getitem required_cols df of
           Inl e \<Rightarrow> Inl e
         | Inr features \<Rightarrow>
             (case getitem_series ''Water_Level_m'' df of
                Inl e \<Rightarrow> Inl e
              | Inr target \<Rightarrow> Inr (features, target)))"

section \<open>Well-formed tables\<close>

text \<open>Every row of a table has one cell per label.\<close>

definition well_formed :: "frame \<Rightarrow> bool" where
  "well_formed df = list_all (\<lambda>r. length r = length (columns df)) (rows df)"

text \<open>The labels that \<open>add_missing cs\<close> adds to a table with the labels \<open>hdr\<close>.\<close>

fun missing :: "string list \<Rightarrow> string list \<Rightarrow> string list" where
  "missing [] hdr = []"
| "missing (c # cs) hdr =
     (if c \<notin> set hdr then c # missing cs (hdr @ [c]) else missing cs hdr)"

section \<open>The default policy as the specification words it\<close>

text \<open>"Any of the six required features absent is defaulted to 0.0": the completed
  assignment maps an absent name to 0.0 and keeps the value of a present one.\<close>

definition default_policy :: "(string \<times> cell) list \<Rightarrow> string \<Rightarrow> cell" where
  "default_policy features c = (case map_of features c of None \<Rightarrow> Num 0 | Some v \<Rightarrow> v)"

definition completed :: "(string \<times> cell) list \<Rightarrow> frame" where
  "completed features =
     \<lparr>columns = required_cols, rows = [map (default_policy features) required_cols]\<rparr>"

section \<open>The records a lookup is about\<close>

text \<open>The records of the dataset file whose date parses at load time, each with the
  point in time parsed, in the order of the file; and those of them whose \<^verbatim>\<open>City\<close> equals
  the given name when both are put in lower case.\<close>

definition dated_rows ::
  "(cell list \<Rightarrow> nat \<Rightarrow> int option) \<Rightarrow> frame \<Rightarrow> (int \<times> cell list) list" where
  "dated_rows td df =
     List.map_filter
       (\<lambda>(i, r). case td (column_of ''Date'' df) i of None \<Rightarrow> None | Some t \<Rightarrow> Some (t, r))
       (enumerate 0 (rows df))"

definition city_hits ::
  "(cell list \<Rightarrow> nat \<Rightarrow> int option) \<Rightarrow> frame \<Rightarrow> string \<Rightarrow> (int \<times> cell list) list" where
  "city_hits td df city =
     filter (\<lambda>(t, r). city_matches city (columns df) r) (dated_rows td df)"

text \<open>The arithmetic mean of a feature over a list of records, for numeric cells.\<close>

definition num_of :: "cell \<Rightarrow> real" where
  "num_of x = (case x of Num v \<Rightarrow> v | _ \<Rightarrow> 0)"

definition is_number :: "cell \<Rightarrow> bool" where
  "is_number x = (case x of Num v \<Rightarrow> True | _ \<Rightarrow> False)"

definition feature_mean :: "string list \<Rightarrow> cell list list \<Rightarrow> string \<Rightarrow> cell" where
  "feature_mean hdr rs c =
     Num (sum_list (map (\<lambda>r. num_of (cell_of hdr r c)) rs) / real (length rs))"

section \<open>The loop over the files as a comprehension\<close>

text \<open>The tables one directory entry contributes to \<^verbatim>\<open>combined_data\<close>: none when the
  file cannot be read, otherwise its normalised table.\<close>

definition frames_of :: "string \<times> content \<Rightarrow> frame list" where
  "frames_of e =
     (case e of
        (f, Unreadable) \<Rightarrow> []
      | (f, Table df) \<Rightarrow> (case normalize_table f df of Inl e \<Rightarrow> [] | Inr d \<Rightarrow> [d]))"

text \<open>All tables carry the same labels.\<close>

definition uniform :: "frame list \<Rightarrow> bool" where
  "uniform objs = list_all (\<lambda>a. list_all (\<lambda>b. columns a = columns b) objs) objs"

text \<open>Two tables with the same content up to the order of their rows.\<close>

definition same_table :: "frame \<Rightarrow> frame \<Rightarrow> bool" where
  "same_table a b = (columns a = columns b \<and> mset (rows a) = mset (rows b))"

section \<open>Required fields\<close>

text \<open>A record lacks a required field when the cell of one of the six features or of the
  target is missing.\<close>

definition lacks_required :: "string list \<Rightarrow> cell list \<Rightarrow> bool" where
  "lacks_required hdr r =
     list_ex (\<lambda>c. cell_of hdr r c = NaN) (required_cols @ [''Water_Level_m''])"

text \<open>A canonical record with every required field and no date.\<close>

definition record_without_date :: "cell list" where
  "record_without_date =
     [NaN, Txt ''Pune'', Num 5, Num 10, Num 20, Num 5, Num 30, Num 7, Num 8]"

section \<open>Example data\<close>

text \<open>A stub model that answers with the first feature (\<^verbatim>\<open>Lat\<close>) of each row; a date
  parser and a formatter that know two days; a dataset file with two records of Pune, one
  of them with a date that does not parse, one record of Delhi, and one record of Goa
  with a date that does not parse.\<close>

definition echo_lat :: regressor where
  "echo_lat df = Inr (map (\<lambda>r. case r of Num v # _ \<Rightarrow> v | _ \<Rightarrow> 0) (rows df))"

definition example_to_datetime :: "cell list \<Rightarrow> nat \<Rightarrow> int option" where
  "example_to_datetime col i =
     (if i < length col
      then (case col ! i of
              Txt s \<Rightarrow> (if s = ''2020-01-01'' then Some 18262
                        else if s = ''2020-01-02'' then Some 18263 else None)
            | _ \<Rightarrow> None)
      else None)"

definition example_strftime :: "int \<Rightarrow> string option" where
  "example_strftime t =
     (if t = 18262 then Some ''2020-01-01'' else if t = 18263 then Some ''2020-01-02''
      else None)"

definition example_dataset :: frame where
  "example_dataset =
     \<lparr>columns = cols,
      rows = [[Txt ''2020-01-01'', Txt ''Pune'', Num 5, Num 10, Num 20, Num 5, Num 30, Num 7, Num 8],
              [Txt ''unknown'', Txt ''Pune'', Num 6, Num 12, Num 22, Num 7, Num 31, Num 7, Num 8],
              [Txt ''2020-01-02'', Txt ''Delhi'', Num 9, Num 28, Num 77, Num 1, Num 35, Num 7,
               Num 6],
              [Txt ''soon'', Txt ''Goa'', Num 3, Num 15, Num 74, Num 2, Num 29, Num 7, Num 8]]\<rparr>"

text \<open>A dataset file with three records of Pune (one written in lower case, one with a
  date that does not parse), one record of Delhi, and one record of Goa with a date that
  does not parse.\<close>

definition averaging_dataset :: frame where
  "averaging_dataset =
     \<lparr>columns = cols,
      rows = [[Txt ''2020-01-01'', Txt ''Pune'', Num 5, Num 10, Num 20, Num 5, Num 30, Num 7, Num 8],
              [Txt ''2020-01-02'', Txt ''pune'', Num 6, Num 12, Num 22, Num 7, Num 31, Num 7, Num 8],
              [Txt ''soon'', Txt ''Pune'', Num 7, Num 20, Num 30, Num 9, Num 40, Num 9, Num 9],
              [Txt ''2020-01-02'', Txt ''Delhi'', Num 9, Num 28, Num 77, Num 1, Num 35, Num 7,
               Num 6],
              [Txt ''soon'', Txt ''Goa'', Num 3, Num 15, Num 74, Num 2, Num 29, Num 7, Num 8]]\<rparr>"

text \<open>A model that raises on every table.\<close>

definition raising_model :: regressor where
  "raising_model df = Inl (OtherError ''no answer'')"

text \<open>A combined dataset as the Trainer reads it: a complete record, a record without a
  date, a record without a city, a record without \<^verbatim>\<open>pH\<close>, and another complete record.\<close>

definition training_dataset :: frame where
  "training_dataset =
     \<lparr>columns = cols,
      rows = [[Txt ''2020-01-01'', Txt ''Pune'', Num 5, Num 10, Num 20, Num 5, Num 30, Num 7, Num 8],
              [NaN, Txt ''Pune'', Num 6, Num 12, Num 22, Num 7, Num 31, Num 7, Num 8],
              [Txt ''2020-01-03'', NaN, Num 7, Num 13, Num 23, Num 8, Num 32, Num 7, Num 8],
              [Txt ''2020-01-02'', Txt ''Delhi'', Num 4, Num 28, Num 77, Num 1, Num 35, NaN,
               Num 6],
              [Txt ''2020-01-04'', Txt ''Delhi'', Num 9, Num 29, Num 78, Num 2, Num 36, Num 7,
               Num 6]]\<rparr>"

text \<open>A directory with two readable sources (one with the label \<^verbatim>\<open>WL\<close>, one with a column
  outside the canonical set), a source that cannot be read and a file that is no source.\<close>

definition example_raw :: directory where
  "example_raw =
     [(''Pune_detailed_groundwater_data.csv'',
       Table \<lparr>columns = [''Date'', ''WL'', ''Lat''],
              rows = [[Txt ''2020-01-01'', Num 5, Num 10]]\<rparr>),
      (''notes.txt'', Unreadable),
      (''Delhi_detailed_groundwater_data_2020.csv'',
       Table \<lparr>columns = [''Date'', ''Water_Level_m'', ''Long'', ''Remark''],
              rows = [[Txt ''2020-01-02'', Num 9, Num 77, Txt ''ok'']]\<rparr>),
      (''Agra_detailed_groundwater_data.csv'', Unreadable)]"

definition example_combined :: frame where
  "example_combined =
     \<lparr>columns = cols,
      rows = [[Txt ''2020-01-01'', Txt ''Pune'', Num 5, Num 10, Num 0, Num 0, Num 0, Num 0, Num 0],
              [Txt ''2020-01-02'', Txt ''Delhi'', Num 9, Num 0, Num 77, Num 0, Num 0, Num 0,
               Num 0]]\<rparr>"

text \<open>A source table that carries the water level under two labels, \<^verbatim>\<open>WL\<close> and
  \<^verbatim>\<open>Water_Level_m\<close>; and a directory with this source and an ordinary one.\<close>

definition two_label_source :: frame where
  "two_label_source =
     \<lparr>columns = [''Date'', ''WL'', ''Water_Level_m''],
      rows = [[Txt ''2020-01-01'', Num 5, Num 6]]\<rparr>"

definition two_label_raw :: directory where
  "two_label_raw =
     [(''Pune_detailed_groundwater_data.csv'', Table two_label_source),
      (''Delhi_detailed_groundwater_data.csv'',
       Table \<lparr>columns = [''Date'', ''WL''], rows = [[Txt ''2020-01-02'', Num 9]]\<rparr>)]"

section \<open>Facts about tables\<close>

lemma concat_map_single:
  "(\<And>x. x \<in> set cs \<Longrightarrow> f x = [g x]) \<Longrightarrow> concat (map f cs) = map g cs"
  by (induction cs) auto

lemma filter_eq_distinct:
  "distinct xs \<Longrightarrow> filter (\<lambda>n. n = c) xs = (if c \<in> set xs then [c] else [])"
  by (induction xs) auto

lemma wf_row: "well_formed df \<Longrightarrow> r \<in> set (rows df) \<Longrightarrow> length r = length (columns df)"
  by (simp add: well_formed_def list_all_iff)

lemma pick_absent: "c \<notin> set hdr \<Longrightarrow> pick hdr r c = []"
  by (auto simp: pick_def filter_empty_conv dest: set_zip_leftD)

lemma pick_append:
  "length r = length hdr \<Longrightarrow> pick (hdr @ h2) (r @ r2) c = pick hdr r c @ pick h2 r2 c"
  by (simp add: pick_def)

lemma pick_distinct:
  "distinct hdr \<Longrightarrow> length r = length hdr \<Longrightarrow> c \<in> set hdr \<Longrightarrow>
   pick hdr r c = [cell_of hdr r c]"
proof (induction hdr r rule: list_induct2')
  case (4 h hs x xs)
  show ?case
  proof (cases "h = c")
    case True
    with 4 have "pick hs xs c = []" by (simp add: pick_absent)
    with True show ?thesis by (simp add: pick_def cell_of_def)
  next
    case False
    with 4 show ?thesis by (simp add: pick_def cell_of_def)
  qed
qed (auto simp: pick_def)

lemma cell_of_absent: "c \<notin> set hdr \<Longrightarrow> cell_of hdr r c = NaN"
proof -
  assume "c \<notin> set hdr"
  then have "map_of (zip hdr r) c = None"
    by (auto simp: map_of_eq_None_iff dest: set_zip_leftD)
  then show ?thesis by (simp add: cell_of_def)
qed

lemma cell_of_append:
  "length r = length hdr \<Longrightarrow> c \<in> set hdr \<Longrightarrow>
   cell_of (hdr @ h2) (r @ r2) c = cell_of hdr r c"
proof -
  assume r: "length r = length hdr" and c: "c \<in> set hdr"
  then have "fst ` set (zip hdr r) = set hdr"
    by (metis list.set_map map_fst_zip)
  with c have "map_of (zip hdr r) c \<noteq> None"
    by (simp add: map_of_eq_None_iff)
  with r show ?thesis
    by (auto simp: cell_of_def map_add_def split: option.splits)
qed

lemma cell_of_append_new:
  "length r = length hdr \<Longrightarrow> c \<notin> set hdr \<Longrightarrow>
   cell_of (hdr @ h2) (r @ r2) c = cell_of h2 r2 c"
proof -
  assume r: "length r = length hdr" and c: "c \<notin> set hdr"
  then have none: "map_of (zip hdr r) c = None"
    by (auto simp: map_of_eq_None_iff dest: set_zip_leftD)
  from r show ?thesis
    by (simp add: cell_of_def map_add_def none)
qed

lemma cell_of_replicate:
  "c \<in> set hdr \<Longrightarrow> cell_of hdr (replicate (length hdr) v) c = v"
  by (induction hdr) (auto simp: cell_of_def)

lemma cell_of_map: "c \<in> set cs \<Longrightarrow> cell_of cs (map g cs) c = g c"
  by (simp add: cell_of_def map_of_zip_map)

lemma getitem_distinct:
  assumes "distinct (columns df)" and "well_formed df" and "set cs \<subseteq> set (columns df)"
  shows "getitem cs df =
     Inr \<lparr>columns = cs, rows = map (\<lambda>r. map (cell_of (columns df) r) cs) (rows df)\<rparr>"
proof -
  have none: "filter (\<lambda>c. c \<notin> set (columns df)) cs = []"
    using assms(3) by (auto simp: filter_empty_conv)
  have "\<And>c. c \<in> set cs \<Longrightarrow> filter (\<lambda>n. n = c) (columns df) = [c]"
    using assms(1,3) by (auto simp: filter_eq_distinct)
  then have labels: "concat (map (\<lambda>c. filter (\<lambda>n. n = c) (columns df)) cs) = cs"
    using concat_map_single [of cs "\<lambda>c. filter (\<lambda>n. n = c) (columns df)" "\<lambda>c. c"] by simp
  have "concat (map (pick (columns df) r) cs) = map (cell_of (columns df) r) cs"
    if "r \<in> set (rows df)" for r
  proof (rule concat_map_single)
    fix c assume "c \<in> set cs"
    with assms that show "pick (columns df) r c = [cell_of (columns df) r c]"
      by (auto simp: pick_distinct wf_row)
  qed
  then have "map (\<lambda>r. concat (map (pick (columns df) r) cs)) (rows df) =
             map (\<lambda>r. map (cell_of (columns df) r) cs) (rows df)"
    by simp
  with labels show ?thesis
    by (simp add: getitem_def none)
qed

lemma columns_add_missing:
  "columns (add_missing cs df) = columns df @ missing cs (columns df)"
  by (induction cs arbitrary: df) (auto simp: setitem_def)

lemma rows_add_missing:
  "rows (add_missing cs df) =
     map (\<lambda>r. r @ replicate (length (missing cs (columns df))) (Num 0)) (rows df)"
  by (induction cs arbitrary: df) (auto simp: setitem_def replicate_append_same)

lemma set_missing: "set (missing cs hdr) = set cs - set hdr"
  by (induction cs arbitrary: hdr) auto

lemma distinct_missing: "distinct (missing cs hdr)"
  by (induction cs arbitrary: hdr) (auto simp: set_missing)

lemma wf_add_missing: "well_formed df \<Longrightarrow> well_formed (add_missing cs df)"
  by (simp add: well_formed_def list_all_iff columns_add_missing rows_add_missing)

lemma distinct_add_missing:
  "distinct (columns df) \<Longrightarrow> distinct (columns (add_missing cs df))"
  by (auto simp: columns_add_missing distinct_missing set_missing)

text \<open>The repair loop followed by the selection of the repaired labels: a label the
  table has keeps its cell, a label it lacks gets 0.0.\<close>

lemma getitem_add_missing:
  assumes "distinct (columns df)" and "well_formed df"
  shows "getitem cs (add_missing cs df) =
     Inr \<lparr>columns = cs,
          rows = map (\<lambda>r. map (\<lambda>c. if c \<in> set (columns df)
                                     then cell_of (columns df) r c else Num 0) cs)
                     (rows df)\<rparr>"
proof -
  let ?new = "missing cs (columns df)"
  have sub: "set cs \<subseteq> set (columns (add_missing cs df))"
    by (auto simp: columns_add_missing set_missing)
  have cell: "cell_of (columns df @ ?new) (r @ replicate (length ?new) (Num 0)) c =
              (if c \<in> set (columns df) then cell_of (columns df) r c else Num 0)"
    if "r \<in> set (rows df)" and "c \<in> set cs" for r c
  proof -
    from that assms have len: "length r = length (columns df)" by (simp add: wf_row)
    show ?thesis
    proof (cases "c \<in> set (columns df)")
      case True
      with len show ?thesis by (simp add: cell_of_append)
    next
      case False
      with that have "c \<in> set ?new" by (simp add: set_missing)
      with len False show ?thesis by (simp add: cell_of_append_new cell_of_replicate)
    qed
  qed
  show ?thesis
    using cell
    by (simp add: getitem_distinct [OF distinct_add_missing [OF assms(1)]
          wf_add_missing [OF assms(2)] sub] columns_add_missing rows_add_missing
          comp_def)
qed

section \<open>Point prediction\<close>

lemma cell_of_dict:
  "cell_of (map fst d) (map snd d) c = (case map_of d c of None \<Rightarrow> NaN | Some v \<Rightarrow> v)"
  by (simp add: cell_of_def zip_map_fst_snd)

lemma default_policy_present:
  "c \<in> fst ` set d \<Longrightarrow> cell_of (map fst d) (map snd d) c = default_policy d c"
proof -
  assume "c \<in> fst ` set d"
  then have "map_of d c \<noteq> None" by (simp add: map_of_eq_None_iff)
  then show ?thesis by (auto simp: cell_of_dict default_policy_def)
qed

lemma default_policy_absent: "c \<notin> fst ` set d \<Longrightarrow> default_policy d c = Num 0"
proof -
  assume "c \<notin> fst ` set d"
  then have "map_of d c = None" by (simp add: map_of_eq_None_iff)
  then show ?thesis by (simp add: default_policy_def)
qed

text \<open>What \<^verbatim>\<open>predict\<close> hands to the model: the six features in their fixed order,
  completed by the default policy.\<close>

lemma predict_features_df:
  assumes "distinct (map fst features)"
  shows "getitem required_cols (add_missing required_cols (DataFrame_of_dict features)) =
         Inr (completed features)"
proof -
  have "distinct (columns (DataFrame_of_dict features))"
    using assms by (simp add: DataFrame_of_dict_def)
  moreover have "well_formed (DataFrame_of_dict features)"
    by (simp add: well_formed_def DataFrame_of_dict_def)
  ultimately have "getitem required_cols (add_missing required_cols (DataFrame_of_dict features)) =
     Inr \<lparr>columns = required_cols,
          rows = map (\<lambda>r. map (\<lambda>c. if c \<in> set (columns (DataFrame_of_dict features))
                 then cell_of (columns (DataFrame_of_dict features)) r c else Num 0) required_cols)
                     (rows (DataFrame_of_dict features))\<rparr>"
    by (rule getitem_add_missing)
  then show ?thesis
    by (simp add: DataFrame_of_dict_def completed_def default_policy_present
        default_policy_absent)
qed

lemma predict_try_completed:
  "distinct (map fst features) \<Longrightarrow>
   predict_try m features = first_prediction m (completed features)"
  by (simp add: predict_try_def predict_features_df)

text \<open>
  \<^bold>\<open>C4.\<close> A point-prediction request whose feature map supplies any of the six required
  features (none of them, or only \<^verbatim>\<open>Lat\<close>, included) is answered with status 200 and one
  number: the model is given the six features in their fixed order, each absent one set
  to 0.0, and its answer is returned. The model must be loaded and must answer on that
  row; a feature map is a JSON object, so no key occurs twice.
\<close>

theorem predict_defaults_absent_features:
  assumes "model st = Some m"
    and "distinct (map fst features)"
    and "m (completed features) = Inr (y # ys)"
  shows "predict st (Some features) = (200, Prediction y)"
  using assms by (simp add: predict_def predict_try_completed first_prediction_def)

theorem predict_defaults_absent_features_witness:
  "predict \<lparr>model = Some (\<lambda>df. Inr (map (\<lambda>r. case r of Num v # _ \<Rightarrow> v | _ \<Rightarrow> 0) (rows df))),
            historical_data = None\<rparr>
           (Some [(''Lat'', Num 12.97)]) = (200, Prediction 12.97)
   \<and> completed [(''Lat'', Num 12.97)] =
       \<lparr>columns = [''Lat'', ''Long'', ''Rainfall_mm'', ''Temperature_C'', ''pH'',
                    ''Dissolved_Oxygen_mg_L''],
        rows = [[Num 12.97, Num 0, Num 0, Num 0, Num 0, Num 0]]\<rparr>"
proof -
  let ?m = "\<lambda>df. Inr (map (\<lambda>r. case r of Num v # _ \<Rightarrow> v | _ \<Rightarrow> 0) (rows df)) :: exn + real list"
  have c: "completed [(''Lat'', Num 12.97)] =
       \<lparr>columns = [''Lat'', ''Long'', ''Rainfall_mm'', ''Temperature_C'', ''pH'',
                    ''Dissolved_Oxygen_mg_L''],
        rows = [[Num 12.97, Num 0, Num 0, Num 0, Num 0, Num 0]]\<rparr>"
    by (simp add: completed_def required_cols_def default_policy_def)
  have "predict \<lparr>model = Some ?m, historical_data = None\<rparr> (Some [(''Lat'', Num 12.97)]) =
        (200, Prediction 12.97)"
    by (rule predict_defaults_absent_features [where m = ?m and ys = "[]"])
       (simp_all add: completed_def required_cols_def default_policy_def)
  with c show ?thesis by simp
qed

text \<open>
  \<^bold>\<open>C10.\<close> The answer of a point prediction depends only on the values the request gives
  to the six required names: two feature maps with the same completed assignment get the
  same response, whatever other keys they hold and in whatever order.
\<close>

theorem predict_depends_on_six_features_only:
  assumes "distinct (map fst f1)" and "distinct (map fst f2)"
    and "\<forall>c \<in> set required_cols. default_policy f1 c = default_policy f2 c"
  shows "predict st (Some f1) = predict st (Some f2)"
proof -
  from assms(3) have "completed f1 = completed f2"
    by (simp add: completed_def)
  with assms(1,2) have "predict_try m f1 = predict_try m f2" for m
    by (simp add: predict_try_completed)
  then show ?thesis
    by (cases "model st") (simp_all add: predict_def)
qed

theorem predict_depends_on_six_features_only_witness:
  "predict \<lparr>model = Some (\<lambda>df. Inr (map (\<lambda>r. case r of Num v # _ \<Rightarrow> v | _ \<Rightarrow> 0) (rows df))),
            historical_data = None\<rparr>
     (Some [(''pH'', Num 7), (''Lat'', Num 12.97), (''note'', Txt ''x'')]) =
   predict \<lparr>model = Some (\<lambda>df. Inr (map (\<lambda>r. case r of Num v # _ \<Rightarrow> v | _ \<Rightarrow> 0) (rows df))),
            historical_data = None\<rparr>
     (Some [(''Lat'', Num 12.97), (''Long'', Num 0), (''pH'', Num 7)])"
  by (rule predict_depends_on_six_features_only)
     (simp_all add: required_cols_def default_policy_def)

section \<open>The default policy at training time and at serving time\<close>

lemma distinct_cols: "distinct cols"
  by (simp add: cols_def)

lemma required_cols_subset: "set required_cols \<subseteq> set cols"
  by (simp add: cols_def required_cols_def)

lemma city_not_required: "''City'' \<notin> set required_cols"
  by (simp add: required_cols_def)

lemma aliases_not_required:
  "''WL'' \<notin> set required_cols" "''WaterLevel'' \<notin> set required_cols"
  by (simp_all add: required_cols_def)

lemma cell_of_single: "cell_of [n] [v] c = (if c = n then v else NaN)"
  by (simp add: cell_of_def)

text \<open>The Normalizer on a one-row table that holds features only.\<close>

lemma normalize_features:
  assumes "distinct (map fst features)" and "set (map fst features) \<subseteq> set required_cols"
  shows "normalize_table f (DataFrame_of_dict features) =
     Inr \<lparr>columns = cols,
          rows = [map (\<lambda>c. if c = ''City'' then Txt (city_name f)
                           else default_policy features c) cols]\<rparr>"
proof -
  let ?df = "\<lparr>columns = map fst features @ [''City''],
              rows = [map snd features @ [Txt (city_name f)]]\<rparr>"
  from assms(2) have nocity: "''City'' \<notin> fst ` set features"
    and nowl: "''WL'' \<notin> fst ` set features"
    and nowater: "''WaterLevel'' \<notin> fst ` set features"
    using city_not_required aliases_not_required by auto
  have 1: "setitem ''City'' (Txt (city_name f)) (DataFrame_of_dict features) = ?df"
    using nocity by (simp add: setitem_def DataFrame_of_dict_def)
  have 2: "standardize ?df = ?df"
    using nowl nowater by (simp add: standardize_def)
  have d: "distinct (columns ?df)"
    using assms(1) nocity by simp
  have w: "well_formed ?df"
    by (simp add: well_formed_def)
  have cell: "(if c \<in> set (columns ?df) then cell_of (columns ?df) r c else Num 0) =
              (if c = ''City'' then Txt (city_name f) else default_policy features c)"
    if "r \<in> set (rows ?df)" for c r
  proof (cases "c \<in> fst ` set features")
    case True
    with nocity have "c \<noteq> ''City''" by blast
    with True that show ?thesis
      by (simp add: cell_of_append default_policy_present)
  next
    case False
    then have "cell_of (map fst features @ [''City''])
                 (map snd features @ [Txt (city_name f)]) c =
               cell_of [''City''] [Txt (city_name f)] c"
      by (intro cell_of_append_new) simp_all
    with False that show ?thesis
      by (cases "c = ''City''") (simp_all add: default_policy_absent cell_of_single)
  qed
  show ?thesis
    unfolding normalize_table_def 1 2 getitem_add_missing [OF d w]
    using cell by simp
qed

text \<open>
  \<^bold>\<open>C5.\<close> The repair of missing features is the same at both call sites. For a feature map
  over the six feature names, the Normalizer applied to the one-row table of the map and
  the point-prediction handler applied to the map give the six features the same cells:
  those of the specification's policy (0.0 for an absent name, the given value for a
  present one).
\<close>

theorem default_policy_same_at_both_sites:
  assumes "distinct (map fst features)" and "set (map fst features) \<subseteq> set required_cols"
  shows "\<exists>out. normalize_table f (DataFrame_of_dict features) = Inr out \<and>
           getitem required_cols out = Inr (completed features) \<and>
           getitem required_cols (add_missing required_cols (DataFrame_of_dict features)) =
             Inr (completed features)"
proof -
  let ?out = "\<lparr>columns = cols,
               rows = [map (\<lambda>c. if c = ''City'' then Txt (city_name f)
                                else default_policy features c) cols]\<rparr>"
  have "well_formed ?out" by (simp add: well_formed_def)
  then have "getitem required_cols ?out =
     Inr \<lparr>columns = required_cols,
          rows = map (\<lambda>r. map (cell_of (columns ?out) r) required_cols) (rows ?out)\<rparr>"
    using distinct_cols required_cols_subset by (intro getitem_distinct) simp_all
  moreover have "cell_of cols (map g cols) c = default_policy features c"
    if "c \<in> set required_cols"
      and "g = (\<lambda>c. if c = ''City'' then Txt (city_name f) else default_policy features c)"
    for c g
    using that required_cols_subset city_not_required by (auto simp: cell_of_map)
  ultimately have "getitem required_cols ?out = Inr (completed features)"
    by (simp add: completed_def)
  with assms show ?thesis
    by (simp add: normalize_features predict_features_df)
qed

theorem default_policy_same_at_both_sites_witness:
  "\<exists>out. normalize_table ''Mumbai_detailed_groundwater_data.csv''
            (DataFrame_of_dict [(''Lat'', Num 12.97)]) = Inr out \<and>
     getitem required_cols out =
       Inr \<lparr>columns = [''Lat'', ''Long'', ''Rainfall_mm'', ''Temperature_C'', ''pH'',
                        ''Dissolved_Oxygen_mg_L''],
            rows = [[Num 12.97, Num 0, Num 0, Num 0, Num 0, Num 0]]\<rparr> \<and>
     getitem required_cols (add_missing required_cols (DataFrame_of_dict [(''Lat'', Num 12.97)])) =
       Inr \<lparr>columns = [''Lat'', ''Long'', ''Rainfall_mm'', ''Temperature_C'', ''pH'',
                        ''Dissolved_Oxygen_mg_L''],
            rows = [[Num 12.97, Num 0, Num 0, Num 0, Num 0, Num 0]]\<rparr>"
proof -
  have c: "completed [(''Lat'', Num 12.97)] =
       \<lparr>columns = [''Lat'', ''Long'', ''Rainfall_mm'', ''Temperature_C'', ''pH'',
                    ''Dissolved_Oxygen_mg_L''],
        rows = [[Num 12.97, Num 0, Num 0, Num 0, Num 0, Num 0]]\<rparr>"
    by (simp add: completed_def required_cols_def default_policy_def)
  have "distinct (map fst [(''Lat'', Num 12.97)])"
    and "set (map fst [(''Lat'', Num 12.97)]) \<subseteq> set required_cols"
    by (simp_all add: required_cols_def)
  from default_policy_same_at_both_sites [OF this, of "''Mumbai_detailed_groundwater_data.csv''"]
  show ?thesis unfolding c .
qed

section \<open>Loading the dataset\<close>

lemma filter_map_map_filter:
  "(\<And>x. x \<in> set xs \<Longrightarrow>
       (case g x of None \<Rightarrow> \<not> P (F x) | Some y \<Rightarrow> P (F x) \<and> F x = G y)) \<Longrightarrow>
   filter P (map F xs) = map G (List.map_filter g xs)"
proof (induction xs)
  case Nil
  show ?case by simp
next
  case (Cons x xs)
  then have tl: "filter P (map F xs) = map G (List.map_filter g xs)" by simp
  from Cons.prems [of x] show ?case
    by (cases "g x") (auto simp: tl)
qed

lemma in_set_map_filter:
  "y \<in> set (List.map_filter g xs) \<longleftrightarrow> (\<exists>x \<in> set xs. g x = Some y)"
  by (induction xs) (auto split: option.splits)

text \<open>Overwriting the cells under one label of a row.\<close>

lemma length_overwrite:
  "length r = length hdr \<Longrightarrow>
   length (map (\<lambda>(n, x). if n = k then v else x) (zip hdr r)) = length hdr"
  by simp

lemma cell_of_overwrite:
  "length r = length hdr \<Longrightarrow>
   cell_of hdr (map (\<lambda>(n, x). if n = k then v else x) (zip hdr r)) c =
     (if c = k \<and> k \<in> set hdr then v else cell_of hdr r c)"
  by (induction r hdr rule: list_induct2) (auto simp: cell_of_def)

text \<open>The table the service keeps: the records whose date parses, with the date cell
  replaced by the point in time.\<close>

lemma rows_load_dataset:
  assumes "well_formed df" and "''Date'' \<in> set (columns df)"
  shows "rows (load_dataset td df) =
     map (\<lambda>(t, r). map (\<lambda>(n, x). if n = ''Date'' then Stamp t else x) (zip (columns df) r))
         (dated_rows td df)"
proof -
  let ?col = "column_of ''Date'' df"
  let ?F = "\<lambda>(i, r). map (\<lambda>(n, x). if n = ''Date''
                then (case td ?col i of None \<Rightarrow> NaN | Some t \<Rightarrow> Stamp t) else x)
              (zip (columns df) r)"
  let ?g = "\<lambda>(i, r). case td ?col i of None \<Rightarrow> None | Some t \<Rightarrow> Some (t, r)"
  let ?G = "\<lambda>(t, r). map (\<lambda>(n, x). if n = ''Date'' then Stamp t else x) (zip (columns df) r)"
  let ?P = "\<lambda>r. cell_of (columns df) r ''Date'' \<noteq> NaN"
  have "case ?g x of None \<Rightarrow> \<not> ?P (?F x) | Some y \<Rightarrow> ?P (?F x) \<and> ?F x = ?G y"
    if "x \<in> set (enumerate 0 (rows df))" for x
  proof -
    obtain i r where x: "x = (i, r)" by (cases x)
    with that have "r \<in> set (rows df)" by (auto simp: in_set_enumerate_eq)
    with assms(1) have "length r = length (columns df)" by (rule wf_row)
    with assms(2) x show ?thesis
      by (cases "td ?col i") (simp_all add: cell_of_overwrite)
  qed
  then have "filter ?P (map ?F (enumerate 0 (rows df))) =
             map ?G (List.map_filter ?g (enumerate 0 (rows df)))"
    by (rule filter_map_map_filter)
  with assms(2) show ?thesis
    by (simp add: load_dataset_def dropna_subset_def to_datetime_column_def dated_rows_def
        Let_def)
qed

lemma columns_load_dataset: "columns (load_dataset td df) = columns df"
  by (simp add: load_dataset_def dropna_subset_def to_datetime_column_def Let_def)

lemma dated_rows_wf:
  "well_formed df \<Longrightarrow> (t, r) \<in> set (dated_rows td df) \<Longrightarrow> length r = length (columns df)"
  by (auto simp: dated_rows_def in_set_map_filter in_set_enumerate_eq well_formed_def list_all_iff
      split: option.splits)

lemma wf_load_dataset:
  assumes "well_formed df" and "''Date'' \<in> set (columns df)"
  shows "well_formed (load_dataset td df)"
  using dated_rows_wf [OF assms(1)]
  by (auto simp: well_formed_def list_all_iff rows_load_dataset [OF assms] columns_load_dataset)

text \<open>The records of a city in the table the service keeps.\<close>

lemma city_rows_load_dataset:
  assumes "well_formed df" and "''Date'' \<in> set (columns df)" and "''City'' \<in> set (columns df)"
  shows "city_rows (load_dataset td df) city =
     Inr \<lparr>columns = columns df,
          rows = map (\<lambda>(t, r). map (\<lambda>(n, x). if n = ''Date'' then Stamp t else x)
                                  (zip (columns df) r))
                     (city_hits td df city)\<rparr>"
proof -
  let ?G = "\<lambda>(t, r). map (\<lambda>(n, x). if n = ''Date'' then Stamp t else x) (zip (columns df) r)"
  have "city_matches city (columns df) (?G x) = (case x of (t, r) \<Rightarrow> city_matches city (columns df) r)"
    if "x \<in> set (dated_rows td df)" for x
  proof -
    obtain t r where x: "x = (t, r)" by (cases x)
    with that assms(1) have "length r = length (columns df)" by (simp add: dated_rows_wf)
    with x show ?thesis by (simp add: city_matches_def cell_of_overwrite)
  qed
  then have "filter (city_matches city (columns df)) (map ?G (dated_rows td df)) =
             map ?G (filter (\<lambda>(t, r). city_matches city (columns df) r) (dated_rows td df))"
    by (simp add: filter_map comp_def cong: filter_cong)
  with assms show ?thesis
    by (simp add: city_rows_def columns_load_dataset rows_load_dataset city_hits_def
        frame.equality)
qed


section \<open>Historical lookup\<close>

lemma wf_city_data:
  assumes "well_formed df"
  shows "well_formed \<lparr>columns = columns df,
             rows = map (\<lambda>(t, r). map (\<lambda>(n, x). if n = ''Date'' then Stamp t else x)
                                     (zip (columns df) r))
                        (city_hits td df city)\<rparr>"
  using dated_rows_wf [OF assms]
  by (auto simp: well_formed_def list_all_iff city_hits_def)

lemma to_record_pair:
  "to_record fmt [''Date'', ''Water_Level_m''] [a, b] =
     ((case a of Stamp t \<Rightarrow> fmt t | _ \<Rightarrow> None), b)"
  by (simp add: to_record_def cell_of_def)

text \<open>The answer of the lookup when the dataset file was loaded: the dated records of the
  city, or status 404 when there is none.\<close>

lemma historical_lookup_loaded:
  assumes "historical_data st = Some (load_dataset td df)"
    and "well_formed df" and "distinct (columns df)"
    and "''Date'' \<in> set (columns df)" and "''City'' \<in> set (columns df)"
    and "''Water_Level_m'' \<in> set (columns df)"
    and "city \<noteq> []"
  shows "get_historical_data fmt st (Some city) =
     (if city_hits td df city = []
      then Inr (404, Error ''No data found for the specified city.'')
      else Inr (200, Records (map (\<lambda>(t, r). (fmt t, cell_of (columns df) r ''Water_Level_m''))
                                   (city_hits td df city))))"
proof -
  let ?G = "\<lambda>(t, r). map (\<lambda>(n, x). if n = ''Date'' then Stamp t else x) (zip (columns df) r)"
  let ?cd = "\<lparr>columns = columns df, rows = map ?G (city_hits td df city)\<rparr>"
  have cr: "city_rows (load_dataset td df) city = Inr ?cd"
    using assms by (simp add: city_rows_load_dataset)
  have "getitem [''Date'', ''Water_Level_m''] ?cd =
        Inr \<lparr>columns = [''Date'', ''Water_Level_m''],
             rows = map (\<lambda>r. map (cell_of (columns ?cd) r) [''Date'', ''Water_Level_m''])
                        (rows ?cd)\<rparr>"
    using assms by (intro getitem_distinct wf_city_data) simp_all
  moreover have "to_record fmt [''Date'', ''Water_Level_m'']
                   (map (cell_of (columns df) (?G x)) [''Date'', ''Water_Level_m'']) =
                 (case x of (t, r) \<Rightarrow> (fmt t, cell_of (columns df) r ''Water_Level_m''))"
    if "x \<in> set (city_hits td df city)" for x
  proof -
    obtain t r where x: "x = (t, r)" by (cases x)
    with that assms(2) have "length r = length (columns df)"
      by (auto simp: city_hits_def dated_rows_wf)
    with x assms(4) show ?thesis
      by (simp add: to_record_pair cell_of_overwrite)
  qed
  ultimately have "(case getitem [''Date'', ''Water_Level_m''] ?cd of
            Inl e \<Rightarrow> Inl e
          | Inr sub \<Rightarrow> Inr (200, Records (map (to_record fmt (columns sub)) (rows sub)))) =
        (Inr (200, Records (map (\<lambda>(t, r). (fmt t, cell_of (columns df) r ''Water_Level_m''))
                                   (city_hits td df city))) :: exn + response)"
    by (simp add: comp_def)
  with assms(1,7) cr show ?thesis
    by (simp add: get_historical_data_def)
qed

lemma historical_data_startup:
  "dataset_file d = Holds df \<Longrightarrow> historical_data (startup td d) = Some (load_dataset td df)"
  by (simp add: startup_def)

text \<open>
  \<^bold>\<open>C9.\<close> Historical lookup for a city name, on a dataset file with the columns \<^verbatim>\<open>Date\<close>,
  \<^verbatim>\<open>City\<close> and \<^verbatim>\<open>Water_Level_m\<close>. The records of the file whose date did not parse at load
  time never take part. When no remaining record has the city (compared in lower case) the
  answer is status 404, and never status 200 with an empty list; otherwise it is status
  200 with one pair of date and water level for each remaining record of the city, in the
  order of the file, and a date in it is null only when formatting it fails.
\<close>

theorem historical_lookup_result:
  assumes "dataset_file d = Holds df"
    and "well_formed df" and "distinct (columns df)"
    and "''Date'' \<in> set (columns df)" and "''City'' \<in> set (columns df)"
    and "''Water_Level_m'' \<in> set (columns df)"
    and "city \<noteq> []"
  shows "get_historical_data fmt (startup td d) (Some city) =
     (if city_hits td df city = []
      then Inr (404, Error ''No data found for the specified city.'')
      else Inr (200, Records (map (\<lambda>(t, r). (fmt t, cell_of (columns df) r ''Water_Level_m''))
                                   (city_hits td df city))))
   \<and> get_historical_data fmt (startup td d) (Some city) \<noteq> Inr (200, Records [])"
proof -
  have "get_historical_data fmt (startup td d) (Some city) =
     (if city_hits td df city = []
      then Inr (404, Error ''No data found for the specified city.'')
      else Inr (200, Records (map (\<lambda>(t, r). (fmt t, cell_of (columns df) r ''Water_Level_m''))
                                   (city_hits td df city))))"
    using assms by (intro historical_lookup_loaded historical_data_startup)
  then show ?thesis by simp
qed

lemma lower_examples:
  "lower ''Pune'' = ''pune''" "lower ''pune'' = ''pune''" "lower ''Delhi'' = ''delhi''"
  "lower ''PUNE'' = ''pune''" "lower ''goa'' = ''goa''" "lower ''Goa'' = ''goa''"
  "lower ''agra'' = ''agra''"
  by code_simp+

lemma example_dataset_ok:
  "well_formed example_dataset" "distinct (columns example_dataset)"
  "''Date'' \<in> set (columns example_dataset)" "''City'' \<in> set (columns example_dataset)"
  "''Water_Level_m'' \<in> set (columns example_dataset)"
  "set required_cols \<subseteq> set (columns example_dataset)"
  by (simp_all add: example_dataset_def well_formed_def cols_def required_cols_def)

lemma example_columns: "columns example_dataset = cols"
  by (simp add: example_dataset_def)

lemma example_dated_rows:
  "dated_rows example_to_datetime example_dataset =
     [(18262, [Txt ''2020-01-01'', Txt ''Pune'', Num 5, Num 10, Num 20, Num 5, Num 30, Num 7, Num 8]),
      (18263, [Txt ''2020-01-02'', Txt ''Delhi'', Num 9, Num 28, Num 77, Num 1, Num 35, Num 7,
               Num 6])]"
  by (simp add: dated_rows_def example_dataset_def example_to_datetime_def column_of_def
      cell_of_def cols_def)

lemma example_city_hits:
  "city_hits example_to_datetime example_dataset ''PUNE'' =
     [(18262, [Txt ''2020-01-01'', Txt ''Pune'', Num 5, Num 10, Num 20, Num 5, Num 30, Num 7, Num 8])]"
  "city_hits example_to_datetime example_dataset ''goa'' = []"
  "city_hits example_to_datetime example_dataset ''agra'' = []"
  by (simp_all add: city_hits_def example_dated_rows city_matches_def cell_of_def
      example_columns cols_def lower_examples)

theorem historical_lookup_result_witness:
  "get_historical_data example_strftime
     (startup example_to_datetime \<lparr>model_file = Absent, dataset_file = Holds example_dataset\<rparr>)
     (Some ''PUNE'') = Inr (200, Records [(Some ''2020-01-01'', Num 5)])
   \<and> get_historical_data example_strftime
     (startup example_to_datetime \<lparr>model_file = Absent, dataset_file = Holds example_dataset\<rparr>)
     (Some ''agra'') = Inr (404, Error ''No data found for the specified city.'')"
proof -
  let ?d = "\<lparr>model_file = Absent, dataset_file = Holds example_dataset\<rparr>"
  have d: "dataset_file ?d = Holds example_dataset" by simp
  have c: "''PUNE'' \<noteq> []" "''agra'' \<noteq> []" by simp_all
  have w: "cell_of (columns example_dataset)
     [Txt ''2020-01-01'', Txt ''Pune'', Num 5, Num 10, Num 20, Num 5, Num 30, Num 7, Num 8]
     ''Water_Level_m'' = Num 5"
    by (simp add: cell_of_def example_columns cols_def)
  from historical_lookup_result [OF d example_dataset_ok(1-5) c(1),
      of example_strftime example_to_datetime]
    historical_lookup_result [OF d example_dataset_ok(1-5) c(2),
      of example_strftime example_to_datetime]
  show ?thesis
    by (simp add: example_city_hits w example_strftime_def)
qed

section \<open>City-averaged prediction\<close>

lemma numbers_Num: "numbers (map Num vs) = Some vs"
  by (induction vs) simp_all

lemma mean_numeric:
  "vs \<noteq> [] \<Longrightarrow> mean (map Num vs) = Inr (Num (sum_list vs / real (length vs)))"
  unfolding mean_def numbers_Num by (cases vs) simp_all

lemma means_map:
  "(\<And>c. c \<in> set cs \<Longrightarrow> mean (f c) = Inr (g c)) \<Longrightarrow> means (map f cs) = Inr (map g cs)"
  by (induction cs) simp_all

lemma is_num_Num: "is_number x \<Longrightarrow> x = Num (num_of x)"
  by (cases x) (simp_all add: is_number_def num_of_def)

lemma date_not_required: "''Date'' \<notin> set required_cols"
  by (simp add: required_cols_def)

text \<open>The mean of a feature over the dated records of the city, when its cells are
  numbers.\<close>

lemma mean_feature_column:
  assumes "hits \<noteq> []" and "\<forall>(t, r) \<in> set hits. is_number (cell_of hdr r c)"
  shows "mean (map (\<lambda>(t, r). cell_of hdr r c) hits) = Inr (feature_mean hdr (map snd hits) c)"
proof -
  have eq: "map (\<lambda>(t, r). cell_of hdr r c) hits =
        map Num (map (\<lambda>r. num_of (cell_of hdr r c)) (map snd hits))"
    using assms(2) by (auto simp: is_num_Num [symmetric])
  have "mean (map Num (map (\<lambda>r. num_of (cell_of hdr r c)) (map snd hits))) =
      Inr (Num (sum_list (map (\<lambda>r. num_of (cell_of hdr r c)) (map snd hits)) /
                real (length (map (\<lambda>r. num_of (cell_of hdr r c)) (map snd hits)))))"
    using assms(1) by (intro mean_numeric) simp
  then show ?thesis
    unfolding eq feature_mean_def by simp
qed

lemma predict_by_city_try_loaded:
  assumes "well_formed df" and "distinct (columns df)"
    and "set required_cols \<subseteq> set (columns df)"
    and "city_hits td df city \<noteq> []"
    and "\<forall>(t, r) \<in> set (city_hits td df city).
           \<forall>c \<in> set required_cols. is_number (cell_of (columns df) r c)"
  shows "predict_by_city_try m
           \<lparr>columns = columns df,
            rows = map (\<lambda>(t, r). map (\<lambda>(n, x). if n = ''Date'' then Stamp t else x)
                                    (zip (columns df) r))
                       (city_hits td df city)\<rparr> =
         first_prediction m
           \<lparr>columns = required_cols,
            rows = [map (feature_mean (columns df) (map snd (city_hits td df city)))
                        required_cols]\<rparr>"
proof -
  let ?hits = "city_hits td df city"
  let ?G = "\<lambda>(t, r). map (\<lambda>(n, x). if n = ''Date'' then Stamp t else x) (zip (columns df) r)"
  let ?cd = "\<lparr>columns = columns df, rows = map ?G ?hits\<rparr>"
  let ?sub = "\<lparr>columns = required_cols,
               rows = map (\<lambda>(t, r). map (cell_of (columns df) r) required_cols) ?hits\<rparr>"
  have "getitem required_cols ?cd =
        Inr \<lparr>columns = required_cols,
             rows = map (\<lambda>r. map (cell_of (columns ?cd) r) required_cols) (rows ?cd)\<rparr>"
    using assms(1-3) by (intro getitem_distinct wf_city_data) simp_all
  moreover have "map (cell_of (columns df) (?G x)) required_cols =
                 (case x of (t, r) \<Rightarrow> map (cell_of (columns df) r) required_cols)"
    if "x \<in> set ?hits" for x
  proof -
    obtain t r where x: "x = (t, r)" by (cases x)
    with that assms(1) have "length r = length (columns df)"
      by (auto simp: city_hits_def dated_rows_wf)
    with x date_not_required show ?thesis
      by (auto simp: cell_of_overwrite)
  qed
  ultimately have sub: "getitem required_cols ?cd = Inr ?sub"
    by (simp add: comp_def)
  have col: "column_of c ?sub = map (\<lambda>(t, r). cell_of (columns df) r c) ?hits"
    if "c \<in> set required_cols" for c
    using that by (simp add: column_of_def comp_def cell_of_map split_def)
  have "mean (column_of c ?sub) =
        Inr (feature_mean (columns df) (map snd ?hits) c)"
    if "c \<in> set required_cols" for c
    unfolding col [OF that]
    using assms(4,5) that by (intro mean_feature_column) auto
  then have "means (map (\<lambda>c. column_of c ?sub) required_cols) =
             Inr (map (feature_mean (columns df) (map snd ?hits)) required_cols)"
    by (rule means_map)
  with sub show ?thesis
    by (simp add: predict_by_city_try_def)
qed

lemma predict_by_city_loaded:
  assumes "model st = Some m"
    and "historical_data st = Some (load_dataset td df)"
    and "well_formed df" and "distinct (columns df)"
    and "''Date'' \<in> set (columns df)" and "''City'' \<in> set (columns df)"
    and "set required_cols \<subseteq> set (columns df)"
    and "city \<noteq> []"
    and "\<forall>(t, r) \<in> set (city_hits td df city).
           \<forall>c \<in> set required_cols. is_number (cell_of (columns df) r c)"
  shows "predict_by_city st (Some city) =
     (if city_hits td df city = []
      then Inr (404, Error ''No data found for the specified city.'')
      else (case first_prediction m
                  \<lparr>columns = required_cols,
                   rows = [map (feature_mean (columns df) (map snd (city_hits td df city)))
                               required_cols]\<rparr> of
              Inr y \<Rightarrow> Inr (200, Prediction y)
            | Inl e \<Rightarrow> Inr (500, ErrorWith ''An error occurred during prediction: '' e)))"
proof (cases "city_hits td df city = []")
  case True
  with assms(1,2,3,5,6,8) show ?thesis
    by (simp add: predict_by_city_def city_rows_load_dataset)
next
  case False
  with assms(1,2,3,5,6,8) show ?thesis
    by (simp add: predict_by_city_def city_rows_load_dataset
        predict_by_city_try_loaded [OF assms(3,4,7) False assms(9)])
qed

lemma model_startup: "model_file d = Holds m \<Longrightarrow> model (startup td d) = Some m"
  by (simp add: startup_def)

text \<open>
  \<^bold>\<open>C3\<close> (amended). City-averaged prediction with both resources loaded, a dataset file with
  the columns \<^verbatim>\<open>Date\<close>, \<^verbatim>\<open>City\<close> and the six features, and a non-empty city name. Only the
  records whose date parsed at load time take part. When none of them has the city
  (compared in lower case) the answer is status 404. Otherwise, the feature cells of those
  records being numbers, the model is given one row holding the arithmetic mean of each of
  the six features over those records, and the number it answers is returned with status
  200. The answer 404 does not depend on the model: it is asked nothing then.
\<close>

theorem predict_by_city_means_dated_records:
  assumes "model_file d = Holds m" and "dataset_file d = Holds df"
    and "well_formed df" and "distinct (columns df)"
    and "''Date'' \<in> set (columns df)" and "''City'' \<in> set (columns df)"
    and "set required_cols \<subseteq> set (columns df)"
    and "city \<noteq> []"
    and "\<forall>(t, r) \<in> set (city_hits td df city).
           \<forall>c \<in> set required_cols. is_number (cell_of (columns df) r c)"
  shows "(city_hits td df city = [] \<longrightarrow>
            predict_by_city (startup td d) (Some city) =
              Inr (404, Error ''No data found for the specified city.'')) \<and>
         (city_hits td df city \<noteq> [] \<and>
          m \<lparr>columns = required_cols,
             rows = [map (feature_mean (columns df) (map snd (city_hits td df city)))
                         required_cols]\<rparr> = Inr (y # ys) \<longrightarrow>
            predict_by_city (startup td d) (Some city) = Inr (200, Prediction y))"
proof -
  have "predict_by_city (startup td d) (Some city) =
     (if city_hits td df city = []
      then Inr (404, Error ''No data found for the specified city.'')
      else (case first_prediction m
                  \<lparr>columns = required_cols,
                   rows = [map (feature_mean (columns df) (map snd (city_hits td df city)))
                               required_cols]\<rparr> of
              Inr y \<Rightarrow> Inr (200, Prediction y)
            | Inl e \<Rightarrow> Inr (500, ErrorWith ''An error occurred during prediction: '' e)))"
    using assms(1-9)
    by (intro predict_by_city_loaded model_startup historical_data_startup)
  then show ?thesis
    by (simp add: first_prediction_def)
qed

lemma example_pune_means:
  "map (feature_mean cols
     [[Txt ''2020-01-01'', Txt ''Pune'', Num 5, Num 10, Num 20, Num 5, Num 30, Num 7, Num 8]])
     required_cols = [Num 10, Num 20, Num 5, Num 30, Num 7, Num 8]"
  by (simp add: feature_mean_def required_cols_def cols_def cell_of_def num_of_def)

lemma averaging_dataset_ok:
  "well_formed averaging_dataset" "distinct (columns averaging_dataset)"
  "''Date'' \<in> set (columns averaging_dataset)" "''City'' \<in> set (columns averaging_dataset)"
  "set required_cols \<subseteq> set (columns averaging_dataset)"
  by (simp_all add: averaging_dataset_def well_formed_def cols_def required_cols_def)

lemma averaging_columns: "columns averaging_dataset = cols"
  by (simp add: averaging_dataset_def)

lemma averaging_dated_rows:
  "dated_rows example_to_datetime averaging_dataset =
     [(18262, [Txt ''2020-01-01'', Txt ''Pune'', Num 5, Num 10, Num 20, Num 5, Num 30, Num 7, Num 8]),
      (18263, [Txt ''2020-01-02'', Txt ''pune'', Num 6, Num 12, Num 22, Num 7, Num 31, Num 7, Num 8]),
      (18263, [Txt ''2020-01-02'', Txt ''Delhi'', Num 9, Num 28, Num 77, Num 1, Num 35, Num 7,
               Num 6])]"
  by (simp add: dated_rows_def averaging_dataset_def example_to_datetime_def column_of_def
      cell_of_def cols_def)

lemma averaging_city_hits:
  "city_hits example_to_datetime averaging_dataset ''PUNE'' =
     [(18262, [Txt ''2020-01-01'', Txt ''Pune'', Num 5, Num 10, Num 20, Num 5, Num 30, Num 7, Num 8]),
      (18263, [Txt ''2020-01-02'', Txt ''pune'', Num 6, Num 12, Num 22, Num 7, Num 31, Num 7,
               Num 8])]"
  "city_hits example_to_datetime averaging_dataset ''Goa'' = []"
  by (simp_all add: city_hits_def averaging_dated_rows city_matches_def cell_of_def
      averaging_columns cols_def lower_examples)

lemma averaging_pune_means:
  "map (feature_mean cols
     [[Txt ''2020-01-01'', Txt ''Pune'', Num 5, Num 10, Num 20, Num 5, Num 30, Num 7, Num 8],
      [Txt ''2020-01-02'', Txt ''pune'', Num 6, Num 12, Num 22, Num 7, Num 31, Num 7, Num 8]])
     required_cols = [Num 11, Num 21, Num 6, Num (61 / 2), Num 7, Num 8]"
  by (simp add: feature_mean_def required_cols_def cols_def cell_of_def num_of_def)

text \<open>Pune has two dated records, with \<^verbatim>\<open>Lat\<close> 10 and 12, and an undated one with
  \<^verbatim>\<open>Lat\<close> 20: the model receives the mean 11 of the first two. Goa has an undated record
  only: the answer is status 404, also with a model that would raise.\<close>

theorem predict_by_city_means_dated_records_witness:
  "predict_by_city
     (startup example_to_datetime
        \<lparr>model_file = Holds echo_lat, dataset_file = Holds averaging_dataset\<rparr>)
     (Some ''PUNE'') = Inr (200, Prediction 11)
   \<and> length (city_hits example_to_datetime averaging_dataset ''PUNE'') = 2
   \<and> predict_by_city
     (startup example_to_datetime
        \<lparr>model_file = Holds raising_model, dataset_file = Holds averaging_dataset\<rparr>)
     (Some ''Goa'') = Inr (404, Error ''No data found for the specified city.'')"
proof -
  let ?d = "\<lparr>model_file = Holds echo_lat, dataset_file = Holds averaging_dataset\<rparr>"
  let ?e = "\<lparr>model_file = Holds raising_model, dataset_file = Holds averaging_dataset\<rparr>"
  have d: "model_file ?d = Holds echo_lat" "dataset_file ?d = Holds averaging_dataset"
    by simp_all
  have e: "model_file ?e = Holds raising_model" "dataset_file ?e = Holds averaging_dataset"
    by simp_all
  have c: "''PUNE'' \<noteq> []" "''Goa'' \<noteq> []" by simp_all
  have n: "\<forall>(t, r) \<in> set (city_hits example_to_datetime averaging_dataset ''PUNE'').
           \<forall>c \<in> set required_cols. is_number (cell_of (columns averaging_dataset) r c)"
    "\<forall>(t, r) \<in> set (city_hits example_to_datetime averaging_dataset ''Goa'').
           \<forall>c \<in> set required_cols. is_number (cell_of (columns averaging_dataset) r c)"
    by (simp_all add: averaging_city_hits averaging_columns required_cols_def cols_def
        cell_of_def is_number_def)
  have m: "echo_lat \<lparr>columns = required_cols,
            rows = [map (feature_mean (columns averaging_dataset)
                      (map snd (city_hits example_to_datetime averaging_dataset ''PUNE'')))
                        required_cols]\<rparr> = Inr (11 # [])"
    by (simp add: averaging_city_hits averaging_columns averaging_pune_means echo_lat_def)
  have h: "city_hits example_to_datetime averaging_dataset ''PUNE'' \<noteq> []"
    "length (city_hits example_to_datetime averaging_dataset ''PUNE'') = 2"
    by (simp_all add: averaging_city_hits)
  from predict_by_city_means_dated_records
      [where m = echo_lat and y = 11 and ys = "[]", OF d averaging_dataset_ok c(1) n(1)] h(1) m
  have 1: "predict_by_city (startup example_to_datetime ?d) (Some ''PUNE'') =
           Inr (200, Prediction 11)"
    by blast
  from predict_by_city_means_dated_records
      [where m = raising_model, OF e averaging_dataset_ok c(2) n(2)]
    averaging_city_hits(2)
  have 2: "predict_by_city (startup example_to_datetime ?e) (Some ''Goa'') =
           Inr (404, Error ''No data found for the specified city.'')"
    by blast
  from 1 2 h(2) show ?thesis by simp
qed

text \<open>The claim as stated fails on the example dataset. Pune has two records, with
  \<^verbatim>\<open>Lat\<close> 10 and 12; the mean over both is 11, but the record with \<^verbatim>\<open>Lat\<close> 12 has a date
  that does not parse and the model receives 10. Goa has one record, whose date does not
  parse, and the answer for Goa is status 404.\<close>

theorem predict_by_city_counterexample:
  "predict_by_city
     (startup example_to_datetime
        \<lparr>model_file = Holds echo_lat, dataset_file = Holds example_dataset\<rparr>)
     (Some ''Pune'') = Inr (200, Prediction 10)
   \<and> mean (column_of ''Lat''
        (example_dataset\<lparr>rows := filter (city_matches ''Pune'' (columns example_dataset))
                                       (rows example_dataset)\<rparr>)) = Inr (Num 11)
   \<and> predict_by_city
     (startup example_to_datetime
        \<lparr>model_file = Holds echo_lat, dataset_file = Holds example_dataset\<rparr>)
     (Some ''Goa'') = Inr (404, Error ''No data found for the specified city.'')
   \<and> filter (city_matches ''Goa'' (columns example_dataset)) (rows example_dataset) =
       [[Txt ''soon'', Txt ''Goa'', Num 3, Num 15, Num 74, Num 2, Num 29, Num 7, Num 8]]"
proof -
  let ?st = "startup example_to_datetime
        \<lparr>model_file = Holds echo_lat, dataset_file = Holds example_dataset\<rparr>"
  have st: "model ?st = Some echo_lat"
    "historical_data ?st = Some (load_dataset example_to_datetime example_dataset)"
    by (simp_all add: startup_def)
  have hits: "city_hits example_to_datetime example_dataset ''Pune'' =
     [(18262, [Txt ''2020-01-01'', Txt ''Pune'', Num 5, Num 10, Num 20, Num 5, Num 30, Num 7, Num 8])]"
    "city_hits example_to_datetime example_dataset ''Goa'' = []"
    by (simp_all add: city_hits_def example_dated_rows city_matches_def cell_of_def
      example_columns cols_def lower_examples)
  have n: "\<forall>(t, r) \<in> set (city_hits example_to_datetime example_dataset ''Pune'').
           \<forall>c \<in> set required_cols. is_number (cell_of (columns example_dataset) r c)"
    "\<forall>(t, r) \<in> set (city_hits example_to_datetime example_dataset ''Goa'').
           \<forall>c \<in> set required_cols. is_number (cell_of (columns example_dataset) r c)"
    by (simp_all add: hits example_columns required_cols_def cols_def cell_of_def
        is_number_def)
  have 1: "predict_by_city ?st (Some ''Pune'') = Inr (200, Prediction 10)"
    by (subst predict_by_city_loaded
          [OF st example_dataset_ok(1-4) example_dataset_ok(6) _ n(1)])
       (simp_all add: hits example_columns example_pune_means echo_lat_def
          first_prediction_def)
  have 2: "predict_by_city ?st (Some ''Goa'') =
           Inr (404, Error ''No data found for the specified city.'')"
    by (subst predict_by_city_loaded
          [OF st example_dataset_ok(1-4) example_dataset_ok(6) _ n(2)])
       (simp_all add: hits)
  have 3: "mean (column_of ''Lat''
        (example_dataset\<lparr>rows := filter (city_matches ''Pune'' (columns example_dataset))
                                       (rows example_dataset)\<rparr>)) = Inr (Num 11)"
    by (simp add: example_dataset_def city_matches_def cell_of_def cols_def lower_examples
        column_of_def mean_def)
  have 4: "filter (city_matches ''Goa'' (columns example_dataset)) (rows example_dataset) =
       [[Txt ''soon'', Txt ''Goa'', Num 3, Num 15, Num 74, Num 2, Num 29, Num 7, Num 8]]"
    by (simp add: example_dataset_def city_matches_def cell_of_def cols_def lower_examples)
  from 1 2 3 4 show ?thesis by simp
qed

section \<open>Startup\<close>

text \<open>
  \<^bold>\<open>C8.\<close> The two resources are loaded independently, and an operation fails only for a
  resource it needs. Startup yields a state for every combination of the two files, the
  model depending on the model file only and the dataset on the dataset file only. With
  the model missing and the dataset loaded, point prediction answers status 500 (model not
  loaded) and historical lookup answers as usual (status 200 for a city that has dated
  records). With the dataset missing and the model loaded, historical lookup answers
  status 500 (data not loaded) and point prediction answers as usual (status 200 with the
  model's number).
\<close>

theorem startup_resources_independent:
  assumes "well_formed df" and "distinct (columns df)"
    and "''Date'' \<in> set (columns df)" and "''City'' \<in> set (columns df)"
    and "''Water_Level_m'' \<in> set (columns df)"
    and "city \<noteq> []" and "city_hits td df city \<noteq> []"
    and "distinct (map fst features)"
    and "m (completed features) = Inr (y # ys)"
  shows "model (startup td (d\<lparr>dataset_file := x\<rparr>)) = model (startup td d) \<and>
     historical_data (startup td (d\<lparr>model_file := z\<rparr>)) = historical_data (startup td d) \<and>
     ((model_file d = Absent \<or> model_file d = Corrupt) \<and> dataset_file d = Holds df \<longrightarrow>
           predict (startup td d) (Some features) = (500, Error ''Model not loaded.'') \<and>
           get_historical_data fmt (startup td d) (Some city) =
             Inr (200, Records (map (\<lambda>(t, r). (fmt t, cell_of (columns df) r ''Water_Level_m''))
                                    (city_hits td df city)))) \<and>
     ((dataset_file d = Absent \<or> dataset_file d = Corrupt) \<and> model_file d = Holds m \<longrightarrow>
           predict (startup td d) (Some features) = (200, Prediction y) \<and>
           get_historical_data fmt (startup td d) (Some city) =
             Inr (500, Error ''Historical data not loaded on the server.''))"
proof (intro conjI)
  show "model (startup td (d\<lparr>dataset_file := x\<rparr>)) = model (startup td d)"
    by (simp add: startup_def)
  show "historical_data (startup td (d\<lparr>model_file := z\<rparr>)) = historical_data (startup td d)"
    by (simp add: startup_def)
  show "(model_file d = Absent \<or> model_file d = Corrupt) \<and> dataset_file d = Holds df \<longrightarrow>
           predict (startup td d) (Some features) = (500, Error ''Model not loaded.'') \<and>
           get_historical_data fmt (startup td d) (Some city) =
             Inr (200, Records (map (\<lambda>(t, r). (fmt t, cell_of (columns df) r ''Water_Level_m''))
                                    (city_hits td df city)))"
  proof (intro impI conjI)
    assume a: "(model_file d = Absent \<or> model_file d = Corrupt) \<and> dataset_file d = Holds df"
    then have "model (startup td d) = None"
      by (auto simp: startup_def)
    then show "predict (startup td d) (Some features) = (500, Error ''Model not loaded.'')"
      by (simp add: predict_def)
    from a have "historical_data (startup td d) = Some (load_dataset td df)"
      by (simp add: historical_data_startup)
    from historical_lookup_loaded [OF this assms(1-6)] assms(7)
    show "get_historical_data fmt (startup td d) (Some city) =
             Inr (200, Records (map (\<lambda>(t, r). (fmt t, cell_of (columns df) r ''Water_Level_m''))
                                    (city_hits td df city)))"
      by simp
  qed
  show "(dataset_file d = Absent \<or> dataset_file d = Corrupt) \<and> model_file d = Holds m \<longrightarrow>
           predict (startup td d) (Some features) = (200, Prediction y) \<and>
           get_historical_data fmt (startup td d) (Some city) =
             Inr (500, Error ''Historical data not loaded on the server.'')"
  proof (intro impI conjI)
    assume a: "(dataset_file d = Absent \<or> dataset_file d = Corrupt) \<and> model_file d = Holds m"
    then have "historical_data (startup td d) = None"
      by (auto simp: startup_def)
    then show "get_historical_data fmt (startup td d) (Some city) =
             Inr (500, Error ''Historical data not loaded on the server.'')"
      by (simp add: get_historical_data_def)
    from a have "model (startup td d) = Some m"
      by (simp add: model_startup)
    with assms(8,9) show "predict (startup td d) (Some features) = (200, Prediction y)"
      by (simp add: predict_def predict_try_completed first_prediction_def)
  qed
qed


theorem startup_resources_independent_witness:
  "predict (startup example_to_datetime
              \<lparr>model_file = Absent, dataset_file = Holds example_dataset\<rparr>)
           (Some [(''Lat'', Num 12.97)]) = (500, Error ''Model not loaded.'')
   \<and> get_historical_data example_strftime
        (startup example_to_datetime
              \<lparr>model_file = Absent, dataset_file = Holds example_dataset\<rparr>)
        (Some ''PUNE'') = Inr (200, Records [(Some ''2020-01-01'', Num 5)])
   \<and> predict (startup example_to_datetime
              \<lparr>model_file = Holds echo_lat, dataset_file = Corrupt\<rparr>)
           (Some [(''Lat'', Num 12.97)]) = (200, Prediction 12.97)
   \<and> get_historical_data example_strftime
        (startup example_to_datetime
              \<lparr>model_file = Holds echo_lat, dataset_file = Corrupt\<rparr>)
        (Some ''PUNE'') = Inr (500, Error ''Historical data not loaded on the server.'')"
proof -
  have c: "''PUNE'' \<noteq> []" by simp
  have h: "city_hits example_to_datetime example_dataset ''PUNE'' \<noteq> []"
    by (simp add: example_city_hits)
  have f: "distinct (map fst [(''Lat'', Num 12.97)])" by simp
  have m: "echo_lat (completed [(''Lat'', Num 12.97)]) = Inr (12.97 # [])"
    by (simp add: echo_lat_def completed_def required_cols_def default_policy_def)
  have w: "cell_of (columns example_dataset)
     [Txt ''2020-01-01'', Txt ''Pune'', Num 5, Num 10, Num 20, Num 5, Num 30, Num 7, Num 8]
     ''Water_Level_m'' = Num 5"
    by (simp add: cell_of_def example_columns cols_def)
  note r = startup_resources_independent [where m = echo_lat and fmt = example_strftime,
      OF example_dataset_ok(1-5) c h f m]
  from r [where d = "\<lparr>model_file = Absent, dataset_file = Holds example_dataset\<rparr>"]
    r [where d = "\<lparr>model_file = Holds echo_lat, dataset_file = Corrupt\<rparr>"]
  show ?thesis
    by (simp add: example_city_hits w example_strftime_def)
qed

section \<open>Feature and target extraction\<close>

lemma cell_of_in_row:
  assumes "length r = length hdr" and "c \<in> set hdr"
  shows "cell_of hdr r c \<in> set r"
proof -
  from assms have "fst ` set (zip hdr r) = set hdr"
    by (metis list.set_map map_fst_zip)
  with assms(2) obtain v where v: "map_of (zip hdr r) c = Some v"
    by (cases "map_of (zip hdr r) c") (auto simp: map_of_eq_None_iff)
  then have "(c, v) \<in> set (zip hdr r)" by (rule map_of_SomeD)
  then have "v \<in> set r" by (rule set_zip_rightD)
  with v show ?thesis by (simp add: cell_of_def)
qed

lemma well_formed_dropna: "well_formed df \<Longrightarrow> well_formed (dropna df)"
  by (simp add: well_formed_def dropna_def list_all_iff)

text \<open>
  \<^bold>\<open>C2\<close> (amended). Feature/Target extraction, on a dataset that has the six feature columns
  and the target column, drops exactly the records with a missing value in any column,
  \<^verbatim>\<open>Date\<close> and \<^verbatim>\<open>City\<close> included. The rows of \<open>X\<close> and the entries of \<open>y\<close> are the features
  and the target of the records kept, in the order of the input; they are equally many,
  and none of the records kept lacks a required field.
\<close>

theorem extraction_drops_rows_with_any_missing_cell:
  assumes "well_formed df" and "distinct (columns df)"
    and "set required_cols \<subseteq> set (columns df)"
    and "''Water_Level_m'' \<in> set (columns df)"
  shows "\<exists>X y. extract_xy df = Inr (X, y) \<and>
     columns X = required_cols \<and>
     rows X = map (\<lambda>r. map (cell_of (columns df) r) required_cols)
                  (filter (\<lambda>r. NaN \<notin> set r) (rows df)) \<and>
     y = map (\<lambda>r. cell_of (columns df) r ''Water_Level_m'')
             (filter (\<lambda>r. NaN \<notin> set r) (rows df)) \<and>
     length (rows X) = length y \<and>
     (\<forall>r \<in> set (filter (\<lambda>r. NaN \<notin> set r) (rows df)). \<not> lacks_required (columns df) r)"
proof -
  let ?kept = "filter (\<lambda>r. NaN \<notin> set r) (rows df)"
  have cols: "columns (dropna df) = columns df" and rws: "rows (dropna df) = ?kept"
    by (simp_all add: dropna_def)
  have "getitem required_cols (dropna df) =
        Inr \<lparr>columns = required_cols,
             rows = map (\<lambda>r. map (cell_of (columns (dropna df)) r) required_cols)
                        (rows (dropna df))\<rparr>"
    using assms by (intro getitem_distinct well_formed_dropna) (simp_all add: cols)
  moreover have "getitem_series ''Water_Level_m'' (dropna df) =
        Inr (map (\<lambda>r. cell_of (columns df) r ''Water_Level_m'') ?kept)"
    using assms(4) by (simp add: getitem_series_def column_of_def cols rws)
  ultimately have x: "extract_xy df =
     Inr (\<lparr>columns = required_cols,
           rows = map (\<lambda>r. map (cell_of (columns df) r) required_cols) ?kept\<rparr>,
          map (\<lambda>r. cell_of (columns df) r ''Water_Level_m'') ?kept)"
    by (simp add: extract_xy_def cols rws)
  have "\<not> lacks_required (columns df) r" if "r \<in> set ?kept" for r
  proof -
    from that assms(1) have len: "length r = length (columns df)" and nan: "NaN \<notin> set r"
      by (auto simp: wf_row)
    have "cell_of (columns df) r c \<noteq> NaN" if "c \<in> set (columns df)" for c
      using cell_of_in_row [OF len that] nan by auto
    with assms(3,4) show ?thesis
      by (auto simp: lacks_required_def list_ex_iff)
  qed
  with x show ?thesis by simp
qed

lemma training_dataset_ok:
  "well_formed training_dataset" "distinct (columns training_dataset)"
  "set required_cols \<subseteq> set (columns training_dataset)"
  "''Water_Level_m'' \<in> set (columns training_dataset)"
  by (simp_all add: training_dataset_def well_formed_def cols_def required_cols_def)

lemma training_dataset_kept:
  "filter (\<lambda>r. NaN \<notin> set r) (rows training_dataset) =
     [[Txt ''2020-01-01'', Txt ''Pune'', Num 5, Num 10, Num 20, Num 5, Num 30, Num 7, Num 8],
      [Txt ''2020-01-04'', Txt ''Delhi'', Num 9, Num 29, Num 78, Num 2, Num 36, Num 7, Num 6]]"
  by (simp add: training_dataset_def)

text \<open>On a dataset of five records the record without a date and the record without a
  city are dropped, like the record without \<^verbatim>\<open>pH\<close>; the two complete records give \<open>X\<close>
  and \<open>y\<close>, in their order.\<close>

theorem extraction_drops_rows_with_any_missing_cell_witness:
  "length (rows training_dataset) = 5 \<and>
   (\<exists>X y. extract_xy training_dataset = Inr (X, y) \<and>
     rows X = [[Num 10, Num 20, Num 5, Num 30, Num 7, Num 8],
               [Num 29, Num 78, Num 2, Num 36, Num 7, Num 6]] \<and>
     y = [Num 5, Num 9])"
proof -
  from extraction_drops_rows_with_any_missing_cell [OF training_dataset_ok]
  obtain X y where "extract_xy training_dataset = Inr (X, y)"
    and "rows X = map (\<lambda>r. map (cell_of (columns training_dataset) r) required_cols)
                  (filter (\<lambda>r. NaN \<notin> set r) (rows training_dataset))"
    and "y = map (\<lambda>r. cell_of (columns training_dataset) r ''Water_Level_m'')
             (filter (\<lambda>r. NaN \<notin> set r) (rows training_dataset))"
    by blast
  moreover have "columns training_dataset = cols" "length (rows training_dataset) = 5"
    by (simp_all add: training_dataset_def)
  ultimately show ?thesis
    by (simp add: training_dataset_kept cols_def required_cols_def cell_of_def)
qed

text \<open>The claim as stated fails: a record that has every required field and lacks only
  its date is dropped, so \<open>X\<close> and \<open>y\<close> come out empty.\<close>

theorem extraction_counterexample:
  "\<not> lacks_required cols record_without_date \<and>
   extract_xy \<lparr>columns = cols, rows = [record_without_date]\<rparr> =
     Inr (\<lparr>columns = required_cols, rows = []\<rparr>, [])"
  by (simp add: lacks_required_def record_without_date_def cols_def required_cols_def
      cell_of_def extract_xy_def dropna_def getitem_def getitem_series_def column_of_def)

section \<open>The dataset combiner\<close>

lemma cols_present_after_repair: "set cs \<subseteq> set (columns (add_missing cs df))"
  by (auto simp: columns_add_missing set_missing)

text \<open>Normalisation never raises; its labels are those of \<open>cols\<close>, in that order, each as
  often as the repaired table carries it.\<close>

lemma normalize_columns:
  "\<exists>out h. normalize_table f df = Inr out \<and> set cols \<subseteq> set h \<and>
     columns out = concat (map (\<lambda>c. filter (\<lambda>n. n = c) h) cols)"
proof -
  let ?df3 = "add_missing cols (standardize (setitem ''City'' (Txt (city_name f)) df))"
  have sub: "set cols \<subseteq> set (columns ?df3)" by (rule cols_present_after_repair)
  then have "filter (\<lambda>c. c \<notin> set (columns ?df3)) cols = []"
    by (auto simp: filter_empty_conv)
  then have "normalize_table f df =
     Inr \<lparr>columns = concat (map (\<lambda>c. filter (\<lambda>n. n = c) (columns ?df3)) cols),
          rows = map (\<lambda>r. concat (map (pick (columns ?df3) r) cols)) (rows ?df3)\<rparr>"
    by (simp add: normalize_table_def getitem_def)
  with sub show ?thesis by auto
qed

lemma filter_eq_single:
  "distinct (filter (\<lambda>n. n = c) h) \<Longrightarrow> c \<in> set h \<Longrightarrow> filter (\<lambda>n. n = c) h = [c]"
proof (induction h)
  case Nil
  then show ?case by simp
next
  case (Cons x xs)
  show ?case
  proof (cases "x = c")
    case True
    with Cons.prems(1) have "c \<notin> set xs" by simp
    then have "filter (\<lambda>n. n = c) xs = []" by (auto simp: filter_empty_conv)
    with True show ?thesis by simp
  next
    case False
    with Cons show ?thesis by simp
  qed
qed

lemma concat_filters_distinct:
  assumes "set cs \<subseteq> set h" and "distinct (concat (map (\<lambda>c. filter (\<lambda>n. n = c) h) cs))"
  shows "concat (map (\<lambda>c. filter (\<lambda>n. n = c) h) cs) = cs"
  using assms
proof (induction cs)
  case Nil
  show ?case by simp
next
  case (Cons c cs)
  from Cons.prems have "distinct (filter (\<lambda>n. n = c) h)" and "c \<in> set h" by simp_all
  then have "filter (\<lambda>n. n = c) h = [c]" by (rule filter_eq_single)
  with Cons show ?case by simp
qed

lemma normalize_distinct_columns:
  assumes "normalize_table f df = Inr out" and "distinct (columns out)"
  shows "columns out = cols"
proof -
  from normalize_columns [of f df] assms(1) obtain h
    where h: "set cols \<subseteq> set h"
      and out: "columns out = concat (map (\<lambda>c. filter (\<lambda>n. n = c) h) cols)"
    by auto
  from assms(2) have "distinct (concat (map (\<lambda>c. filter (\<lambda>n. n = c) h) cols))"
    by (simp only: out)
  with h have "concat (map (\<lambda>c. filter (\<lambda>n. n = c) h) cols) = cols"
    by (rule concat_filters_distinct)
  with out show ?thesis by simp
qed

lemma process_files_concat: "process_files xs = concat (map frames_of xs)"
  by (induction xs rule: process_files.induct) (auto simp: frames_of_def split: sum.splits)

lemma mset_concat_map:
  "mset (concat (map g xs)) = sum_mset (image_mset (\<lambda>x. mset (g x)) (mset xs))"
  by (induction xs) simp_all

lemma process_files_mset:
  "mset xs' = mset xs \<Longrightarrow> mset (process_files xs') = mset (process_files xs)"
  by (simp add: process_files_concat mset_concat_map)

lemma process_files_normalized:
  assumes "g \<in> set (process_files xs)" and "distinct (columns g)"
  shows "columns g = cols"
proof -
  from assms(1) obtain e where "e \<in> set xs" and g: "g \<in> set (frames_of e)"
    by (auto simp: process_files_concat)
  obtain f c where e: "e = (f, c)" by (cases e)
  from g e obtain df where "normalize_table f df = Inr g"
    by (cases c; cases "normalize_table f (case c of Table df \<Rightarrow> df)")
       (simp_all add: frames_of_def)
  then show ?thesis using assms(2) by (rule normalize_distinct_columns)
qed

lemma uniform_iff:
  "uniform objs \<longleftrightarrow> (\<forall>a \<in> set objs. \<forall>b \<in> set objs. columns a = columns b)"
  by (simp add: uniform_def list_all_iff)

text \<open>\<^verbatim>\<open>pd.concat\<close> on normalised tables: they are stacked when they carry the same
  labels; otherwise one of them repeats a label and the call raises.\<close>

lemma pd_concat_normalized:
  assumes "\<And>g. g \<in> set objs \<Longrightarrow> distinct (columns g) \<Longrightarrow> columns g = cols"
  shows "pd_concat objs =
     (if objs = [] then Inl (OtherError ''No objects to concatenate'')
      else if uniform objs
           then Inr \<lparr>columns = columns (hd objs), rows = concat (map rows objs)\<rparr>
           else Inl InvalidIndexError)"
proof (cases objs)
  case Nil
  then show ?thesis by (simp add: pd_concat_def)
next
  case (Cons f rest)
  have u: "uniform objs \<longleftrightarrow> list_all (\<lambda>g. columns g = columns f) rest"
    unfolding uniform_iff Cons by (auto simp: list_all_iff)
  show ?thesis
  proof (cases "uniform objs")
    case True
    with u Cons show ?thesis by (simp add: pd_concat_def)
  next
    case False
    have "list_ex (\<lambda>g. \<not> distinct (columns g)) objs"
    proof (rule ccontr)
      assume "\<not> list_ex (\<lambda>g. \<not> distinct (columns g)) objs"
      then have "\<forall>g \<in> set objs. columns g = cols"
        using assms by (auto simp: list_ex_iff)
      then have "uniform objs" by (simp add: uniform_iff)
      with False show False ..
    qed
    with False u Cons show ?thesis by (simp add: pd_concat_def)
  qed
qed

lemma uniform_mset:
  assumes "mset objs' = mset objs"
  shows "uniform objs' = uniform objs"
proof -
  from assms have "set objs' = set objs" by (rule mset_eq_setD)
  then show ?thesis by (simp only: uniform_iff)
qed

lemma stacked_same_table:
  assumes "mset objs' = mset objs" and "uniform objs" and "objs \<noteq> []"
  shows "same_table \<lparr>columns = columns (hd objs), rows = concat (map rows objs)\<rparr>
                    \<lparr>columns = columns (hd objs'), rows = concat (map rows objs')\<rparr>"
proof -
  from assms(1) have s: "set objs' = set objs" by (rule mset_eq_setD)
  from assms(3) have "set objs \<noteq> {}" by simp
  with s have "objs' \<noteq> []" by auto
  then have "hd objs' \<in> set objs'" by (rule hd_in_set)
  with s have 1: "hd objs' \<in> set objs" by (simp only:)
  from assms(3) have 2: "hd objs \<in> set objs" by (rule hd_in_set)
  from assms(2) 1 2 have "columns (hd objs) = columns (hd objs')"
    unfolding uniform_iff by blast
  moreover have "mset (concat (map rows objs)) = mset (concat (map rows objs'))"
    by (simp only: mset_concat_map assms(1))
  ultimately show ?thesis by (simp add: same_table_def)
qed

text \<open>What \<^verbatim>\<open>combine_and_clean_data\<close> does, in terms of the normalised tables of the
  source files.\<close>

lemma combine_cases:
  "combine_and_clean_data (Some raw) =
     (let tables = process_files (filter (\<lambda>(f, c). is_source f) raw)
      in if tables = [] then (Inr None, Some raw)
         else if uniform tables
              then (Inr (Some output_name),
                    Some (write_file output_name
                            (Table \<lparr>columns = columns (hd tables),
                                    rows = concat (map rows tables)\<rparr>) raw))
              else (Inl InvalidIndexError, Some raw))"
proof -
  let ?tables = "process_files (filter (\<lambda>(f, c). is_source f) raw)"
  have "pd_concat ?tables =
     (if ?tables = [] then Inl (OtherError ''No objects to concatenate'')
      else if uniform ?tables
           then Inr \<lparr>columns = columns (hd ?tables), rows = concat (map rows ?tables)\<rparr>
           else Inl InvalidIndexError)"
    by (rule pd_concat_normalized) (rule process_files_normalized)
  moreover have "filter (\<lambda>(f, c). is_source f) raw = [] \<Longrightarrow> ?tables = []"
    by simp
  ultimately show ?thesis
    by (auto simp: combine_and_clean_data_def Let_def)
qed

lemma output_name_no_source: "\<not> is_source output_name"
  by code_simp

lemma sources_write_file:
  "\<not> is_source n \<Longrightarrow>
   filter (\<lambda>(f, c). is_source f) (write_file n c raw) = filter (\<lambda>(f, c). is_source f) raw"
  by (induction raw) auto

lemma map_of_write_file: "map_of (write_file n c raw) n = Some c"
  by (induction raw) auto

lemma names_write_file:
  "n \<in> set (map fst raw) \<Longrightarrow> map fst (write_file n c raw) = map fst raw"
  by (induction raw) (auto simp del: set_map)

lemma name_in_write_file: "n \<in> set (map fst (write_file n c raw))"
  by (induction raw) (auto simp del: set_map)

lemma example_names:
  "is_source ''Pune_detailed_groundwater_data.csv''"
  "is_source ''Delhi_detailed_groundwater_data_2020.csv''"
  "is_source ''Delhi_detailed_groundwater_data.csv''"
  "is_source ''Agra_detailed_groundwater_data.csv''"
  "\<not> is_source ''notes.txt''"
  "\<not> is_source ''combined_city_data.csv''"
  by code_simp+

lemma example_cities:
  "city_name ''Pune_detailed_groundwater_data.csv'' = ''Pune''"
  "city_name ''Delhi_detailed_groundwater_data_2020.csv'' = ''Delhi''"
  "city_name ''Delhi_detailed_groundwater_data.csv'' = ''Delhi''"
  by (simp_all add: city_name_def)

lemma example_normalize:
  "normalize_table ''Pune_detailed_groundwater_data.csv''
     \<lparr>columns = [''Date'', ''WL'', ''Lat''],
      rows = [[Txt ''2020-01-01'', Num 5, Num 10]]\<rparr> =
   Inr \<lparr>columns = cols,
        rows = [[Txt ''2020-01-01'', Txt ''Pune'', Num 5, Num 10, Num 0, Num 0, Num 0, Num 0,
                 Num 0]]\<rparr>"
  "normalize_table ''Delhi_detailed_groundwater_data_2020.csv''
     \<lparr>columns = [''Date'', ''Water_Level_m'', ''Long'', ''Remark''],
      rows = [[Txt ''2020-01-02'', Num 9, Num 77, Txt ''ok'']]\<rparr> =
   Inr \<lparr>columns = cols,
        rows = [[Txt ''2020-01-02'', Txt ''Delhi'', Num 9, Num 0, Num 77, Num 0, Num 0, Num 0,
                 Num 0]]\<rparr>"
  by (simp_all add: normalize_table_def example_cities setitem_def standardize_def
      rename_col_def cols_def getitem_def pick_def)

lemma example_tables:
  "process_files (filter (\<lambda>(f, c). is_source f) example_raw) =
     [\<lparr>columns = cols,
       rows = [[Txt ''2020-01-01'', Txt ''Pune'', Num 5, Num 10, Num 0, Num 0, Num 0, Num 0,
                Num 0]]\<rparr>,
      \<lparr>columns = cols,
       rows = [[Txt ''2020-01-02'', Txt ''Delhi'', Num 9, Num 0, Num 77, Num 0, Num 0, Num 0,
                Num 0]]\<rparr>]"
  by (simp add: example_raw_def example_names example_normalize)

lemma example_combine:
  "combine_and_clean_data (Some example_raw) =
     (Inr (Some output_name), Some (example_raw @ [(output_name, Table example_combined)]))"
proof -
  have "write_file output_name c example_raw = example_raw @ [(output_name, c)]" for c
    by (simp add: example_raw_def output_name_def)
  then show ?thesis
    by (simp add: combine_cases example_tables uniform_def example_combined_def)
qed

lemma two_label_normalize:
  "normalize_table ''Pune_detailed_groundwater_data.csv'' two_label_source =
   Inr \<lparr>columns = [''Date'', ''City'', ''Water_Level_m'', ''Water_Level_m'', ''Lat'', ''Long'',
                   ''Rainfall_mm'', ''Temperature_C'', ''pH'', ''Dissolved_Oxygen_mg_L''],
        rows = [[Txt ''2020-01-01'', Txt ''Pune'', Num 5, Num 6, Num 0, Num 0, Num 0, Num 0,
                 Num 0, Num 0]]\<rparr>"
  by (simp add: normalize_table_def two_label_source_def example_cities setitem_def
      standardize_def rename_col_def cols_def getitem_def pick_def)

lemma two_label_tables:
  "process_files (filter (\<lambda>(f, c). is_source f) two_label_raw) =
     [\<lparr>columns = [''Date'', ''City'', ''Water_Level_m'', ''Water_Level_m'', ''Lat'', ''Long'',
                   ''Rainfall_mm'', ''Temperature_C'', ''pH'', ''Dissolved_Oxygen_mg_L''],
        rows = [[Txt ''2020-01-01'', Txt ''Pune'', Num 5, Num 6, Num 0, Num 0, Num 0, Num 0,
                 Num 0, Num 0]]\<rparr>,
      \<lparr>columns = cols,
        rows = [[Txt ''2020-01-02'', Txt ''Delhi'', Num 9, Num 0, Num 0, Num 0, Num 0, Num 0,
                 Num 0]]\<rparr>]"
proof -
  have "normalize_table ''Delhi_detailed_groundwater_data.csv''
     \<lparr>columns = [''Date'', ''WL''], rows = [[Txt ''2020-01-02'', Num 9]]\<rparr> =
     Inr \<lparr>columns = cols,
        rows = [[Txt ''2020-01-02'', Txt ''Delhi'', Num 9, Num 0, Num 0, Num 0, Num 0, Num 0,
                 Num 0]]\<rparr>"
    by (simp add: normalize_table_def example_cities setitem_def standardize_def
      rename_col_def cols_def getitem_def pick_def)
  then show ?thesis
    by (simp add: two_label_raw_def example_names two_label_normalize)
qed

lemma sources_mset:
  assumes "mset raw' = mset raw"
  shows "mset (process_files (filter (\<lambda>(f, c). is_source f) raw')) =
         mset (process_files (filter (\<lambda>(f, c). is_source f) raw))"
proof -
  have "mset (filter (\<lambda>(f, c). is_source f) raw') = mset (filter (\<lambda>(f, c). is_source f) raw)"
    by (simp only: mset_filter assms)
  then show ?thesis by (rule process_files_mset)
qed

text \<open>
  \<^bold>\<open>C7.\<close> Running the combination a second time over the directory the first run left
  (the same source files, listed in any order) gives the same result: the same value
  returned or exception raised and, when an output file is written, a table with the same
  labels and the same rows up to their order, written over the first run's output at the
  same name. The output file is no source: its name does not match the pattern.
\<close>

theorem combining_twice_gives_same_content:
  assumes "combine_and_clean_data (Some raw) = (res, Some raw1)"
    and "mset raw2 = mset raw1"
  shows "\<exists>raw3. combine_and_clean_data (Some raw2) = (res, Some raw3) \<and>
     \<not> is_source output_name \<and>
     (res = Inr (Some output_name) \<longrightarrow>
        map fst raw3 = map fst raw2 \<and>
        (\<exists>t1 t2. map_of raw1 output_name = Some (Table t1) \<and>
                 map_of raw3 output_name = Some (Table t2) \<and> same_table t1 t2)) \<and>
     (res \<noteq> Inr (Some output_name) \<longrightarrow> raw3 = raw2)"
proof -
  let ?src = "\<lambda>(f :: string, c :: content). is_source f"
  let ?T = "process_files (filter ?src raw)"
  let ?T2 = "process_files (filter ?src raw2)"
  let ?t1 = "\<lparr>columns = columns (hd ?T), rows = concat (map rows ?T)\<rparr>"
  let ?t2 = "\<lparr>columns = columns (hd ?T2), rows = concat (map rows ?T2)\<rparr>"
  have first: "(res, Some raw1) =
     (if ?T = [] then (Inr None, Some raw)
      else if uniform ?T
           then (Inr (Some output_name), Some (write_file output_name (Table ?t1) raw))
           else (Inl InvalidIndexError, Some raw))"
    using assms(1) by (simp add: combine_cases Let_def)
  have second: "combine_and_clean_data (Some raw2) =
     (if ?T2 = [] then (Inr None, Some raw2)
      else if uniform ?T2
           then (Inr (Some output_name), Some (write_file output_name (Table ?t2) raw2))
           else (Inl InvalidIndexError, Some raw2))"
    by (simp add: combine_cases Let_def)
  have "filter ?src raw1 = filter ?src raw"
    using first by (auto simp: sources_write_file output_name_no_source split: if_splits)
  then have "mset ?T2 = mset (process_files (filter ?src raw1))" and "process_files (filter ?src raw1) = ?T"
    using sources_mset [OF assms(2)] by simp_all
  then have perm: "mset ?T2 = mset ?T" by (simp only:)
  then have empty: "?T2 = [] \<longleftrightarrow> ?T = []"
    by (metis mset_zero_iff)
  from perm have u: "uniform ?T2 = uniform ?T" by (rule uniform_mset)
  show ?thesis
  proof (cases "?T = []")
    case True
    with first second empty output_name_no_source show ?thesis by simp
  next
    case False
    show ?thesis
    proof (cases "uniform ?T")
      case no: False
      with False first second empty u output_name_no_source show ?thesis by simp
    next
      case yes: True
      from False yes first have res: "res = Inr (Some output_name)"
        and raw1: "raw1 = write_file output_name (Table ?t1) raw" by simp_all
      from False yes second empty u
      have run2: "combine_and_clean_data (Some raw2) =
        (Inr (Some output_name), Some (write_file output_name (Table ?t2) raw2))"
        by simp
      have "output_name \<in> set (map fst raw1)"
        unfolding raw1 by (rule name_in_write_file)
      moreover from assms(2) have "set raw2 = set raw1" by (rule mset_eq_setD)
      ultimately have "output_name \<in> set (map fst raw2)" by simp
      then have names: "map fst (write_file output_name (Table ?t2) raw2) = map fst raw2"
        by (rule names_write_file)
      have same: "same_table ?t1 ?t2"
        using perm yes False by (rule stacked_same_table)
      have "map_of raw1 output_name = Some (Table ?t1)"
        unfolding raw1 by (rule map_of_write_file)
      moreover have "map_of (write_file output_name (Table ?t2) raw2) output_name =
                     Some (Table ?t2)"
        by (rule map_of_write_file)
      ultimately show ?thesis
        using run2 res names same output_name_no_source by blast
    qed
  qed
qed

theorem combining_twice_gives_same_content_witness:
  "\<exists>raw3. combine_and_clean_data
            (Some (rev (example_raw @ [(output_name, Table example_combined)]))) =
          (Inr (Some output_name), Some raw3) \<and>
     map fst raw3 = map fst (rev (example_raw @ [(output_name, Table example_combined)])) \<and>
     (\<exists>t2. map_of raw3 output_name = Some (Table t2) \<and> same_table example_combined t2)"
proof -
  let ?raw1 = "example_raw @ [(output_name, Table example_combined)]"
  have "mset (rev ?raw1) = mset ?raw1" by (rule mset_rev)
  from combining_twice_gives_same_content [OF example_combine this]
  obtain raw3 t1 t2 where run: "combine_and_clean_data (Some (rev ?raw1)) =
        (Inr (Some output_name), Some raw3)"
    and names: "map fst raw3 = map fst (rev ?raw1)"
    and t1: "map_of ?raw1 output_name = Some (Table t1)"
    and t2: "map_of raw3 output_name = Some (Table t2)" and same: "same_table t1 t2"
    by blast
  have "map_of ?raw1 output_name = Some (Table example_combined)"
    by (simp add: example_raw_def output_name_def)
  with t1 have "t1 = example_combined" by simp
  with run names t2 same show ?thesis by blast
qed

section \<open>Sources that carry the water level under two labels\<close>

text \<open>
  \<^bold>\<open>C1.\<close> The claim: the Normalizer's output has the canonical columns, in the canonical
  order, for every source table. On a source with the labels \<^verbatim>\<open>Date\<close>, \<^verbatim>\<open>WL\<close> and
  \<^verbatim>\<open>Water_Level_m\<close> the renaming of lines 42 to 45 turns \<^verbatim>\<open>WL\<close> into a second label
  \<^verbatim>\<open>Water_Level_m\<close>, and the selection of line 55 returns both columns: the output has ten
  columns, not the nine canonical ones.
\<close>

theorem normalize_repeats_water_level:
  "normalize_table ''Pune_detailed_groundwater_data.csv'' two_label_source =
     Inr \<lparr>columns = [''Date'', ''City'', ''Water_Level_m'', ''Water_Level_m'', ''Lat'', ''Long'',
                     ''Rainfall_mm'', ''Temperature_C'', ''pH'', ''Dissolved_Oxygen_mg_L''],
          rows = [[Txt ''2020-01-01'', Txt ''Pune'', Num 5, Num 6, Num 0, Num 0, Num 0, Num 0,
                   Num 0, Num 0]]\<rparr>
   \<and> [''Date'', ''City'', ''Water_Level_m'', ''Water_Level_m'', ''Lat'', ''Long'',
       ''Rainfall_mm'', ''Temperature_C'', ''pH'', ''Dissolved_Oxygen_mg_L''] \<noteq> cols"
  by (simp add: two_label_normalize cols_def)

text \<open>
  \<^bold>\<open>C6.\<close> The claim: an output file is written if and only if at least one discovered source
  parses. In a directory with the source above and an ordinary source, both parse and both
  are normalised, to tables with different labels, one of which repeats a label;
  \<^verbatim>\<open>pd.concat\<close> of line 64 raises, outside any \<^verbatim>\<open>try\<close>, and nothing is written.
\<close>

theorem combine_raises_on_repeated_label:
  "length (process_files (filter (\<lambda>(f, c). is_source f) two_label_raw)) = 2
   \<and> combine_and_clean_data (Some two_label_raw) = (Inl InvalidIndexError, Some two_label_raw)"
  by (simp add: combine_cases two_label_tables uniform_def cols_def)


end
